theory Spec2Isabelle
  imports Complex_Main "HOL-Library.Monad_Syntax"
begin

section \<open>JavaScript strings\<close>

text \<open>
  The transformer is JavaScript, so its strings are JavaScript strings. They are modelled as
  \<^typ>\<open>string\<close>: lists of characters, each one code unit below 256. The string methods the
  transformer calls are written out below the way ECMA-262 defines them.
\<close>

text \<open>\<^verbatim>\<open>s.includes(pat)\<close> and the split of \<open>s\<close> at the first occurrence of \<open>pat\<close>.\<close>

fun find_sub :: "string \<Rightarrow> string \<Rightarrow> (string \<times> string) option" where
  "find_sub pat [] = (if pat = [] then Some ([], []) else None)"
| "find_sub pat (c # cs) =
     (if take (length pat) (c # cs) = pat then Some ([], drop (length pat) (c # cs))
      else (case find_sub pat cs of None \<Rightarrow> None | Some (b, a) \<Rightarrow> Some (c # b, a)))"

definition str_includes :: "string \<Rightarrow> string \<Rightarrow> bool" where
  "str_includes s pat = (find_sub pat s \<noteq> None)"

text \<open>
  \<^verbatim>\<open>GetSubstitution\<close> for a string pattern (no capture groups): in the replacement text
  \<^verbatim>\<open>$$\<close> stands for a dollar sign, \<^verbatim>\<open>$&\<close> for the matched text, \<^verbatim>\<open>$`\<close> for the text before
  the match and \<^verbatim>\<open>$'\<close> for the text after it; every other character is itself.
\<close>

fun get_substitution :: "string \<Rightarrow> string \<Rightarrow> string \<Rightarrow> string \<Rightarrow> string" where
  "get_substitution m b a [] = []"
| "get_substitution m b a [c] = [c]"
| "get_substitution m b a (c # d # r) =
     (if c = CHR ''$'' \<and> d = CHR ''$'' then CHR ''$'' # get_substitution m b a r
      else if c = CHR ''$'' \<and> d = CHR ''&'' then m @ get_substitution m b a r
      else if c = CHR ''$'' \<and> d = CHR 0x60 then b @ get_substitution m b a r
      else if c = CHR ''$'' \<and> d = CHR 0x27 then a @ get_substitution m b a r
      else c # get_substitution m b a (d # r))"

text \<open>\<^verbatim>\<open>s.replace(pat, rep)\<close> with a string pattern: the first occurrence only.\<close>

definition replace :: "string \<Rightarrow> string \<Rightarrow> string \<Rightarrow> string" where
  "replace pat rep s =
     (case find_sub pat s of
        None \<Rightarrow> s
      | Some (b, a) \<Rightarrow> b @ get_substitution pat b a rep @ a)"

text \<open>
  \<^verbatim>\<open>toUpperCase\<close> and \<^verbatim>\<open>toLowerCase\<close> on characters below 256. The letters that have a small
  and a capital form there are a to z and the accented letters U+00E0 to U+00FE (U+00F7,
  the division sign, is no letter), each with its capital 32 below. \<^verbatim>\<open>toUpperCase\<close> turns
  the sharp s (U+00DF) into \<^verbatim>\<open>SS\<close>. The capitals of U+00B5 and U+00FF lie above 255, outside
  the strings of the model, which leaves these two as they are, like every other character.
\<close>

definition letter_pairs :: "(char \<times> char) list" where
  "letter_pairs =
     zip (''abcdefghijklmnopqrstuvwxyz'' @
       [CHR 0xE0, CHR 0xE1, CHR 0xE2, CHR 0xE3, CHR 0xE4, CHR 0xE5, CHR 0xE6, CHR 0xE7,
        CHR 0xE8, CHR 0xE9, CHR 0xEA, CHR 0xEB, CHR 0xEC, CHR 0xED, CHR 0xEE, CHR 0xEF,
        CHR 0xF0, CHR 0xF1, CHR 0xF2, CHR 0xF3, CHR 0xF4, CHR 0xF5, CHR 0xF6, CHR 0xF8,
        CHR 0xF9, CHR 0xFA, CHR 0xFB, CHR 0xFC, CHR 0xFD, CHR 0xFE])
       (''ABCDEFGHIJKLMNOPQRSTUVWXYZ'' @
       [CHR 0xC0, CHR 0xC1, CHR 0xC2, CHR 0xC3, CHR 0xC4, CHR 0xC5, CHR 0xC6, CHR 0xC7,
        CHR 0xC8, CHR 0xC9, CHR 0xCA, CHR 0xCB, CHR 0xCC, CHR 0xCD, CHR 0xCE, CHR 0xCF,
        CHR 0xD0, CHR 0xD1, CHR 0xD2, CHR 0xD3, CHR 0xD4, CHR 0xD5, CHR 0xD6, CHR 0xD8,
        CHR 0xD9, CHR 0xDA, CHR 0xDB, CHR 0xDC, CHR 0xDD, CHR 0xDE])"

definition upper_char :: "char \<Rightarrow> char" where
  "upper_char c = (case map_of letter_pairs c of None \<Rightarrow> c | Some u \<Rightarrow> u)"

definition lower_char :: "char \<Rightarrow> char" where
  "lower_char c = (case map_of (map prod.swap letter_pairs) c of None \<Rightarrow> c | Some l \<Rightarrow> l)"

definition toUpperCase :: "string \<Rightarrow> string" where
  "toUpperCase s = concat (map (\<lambda>c. if c = CHR 0xDF then ''SS'' else [upper_char c]) s)"

definition toLowerCase :: "string \<Rightarrow> string" where
  "toLowerCase s = map lower_char s"

text \<open>White space as \<^verbatim>\<open>trim\<close> and \<^verbatim>\<open>parseFloat\<close> see it: TAB, LF, VT, FF, CR, SP, NBSP.\<close>

definition is_space :: "char \<Rightarrow> bool" where
  "is_space c = ((of_char c :: nat) \<in> {9, 10, 11, 12, 13, 32, 160})"

definition trim_start :: "string \<Rightarrow> string" where
  "trim_start s = dropWhile is_space s"

definition trim :: "string \<Rightarrow> string" where
  "trim s = rev (dropWhile is_space (rev (dropWhile is_space s)))"

text \<open>\<^verbatim>\<open>xs.join(sep)\<close> on a list of strings.\<close>

fun join :: "string \<Rightarrow> string list \<Rightarrow> string" where
  "join sep [] = []"
| "join sep [x] = x"
| "join sep (x # y # ys) = x @ sep @ join sep (y # ys)"

section \<open>JavaScript numbers\<close>

text \<open>
  A Number is an IEEE 754 binary64 value. A finite one is modelled as \<open>Fin m e\<close>, which
  denotes \<open>m * 2 ^ e\<close>, with \<open>m\<close> odd (or \<open>m = 0\<close> and \<open>e = 0\<close>) so that equal Numbers are
  equal terms. Arithmetic computes the exact result as a fraction of integers and rounds it
  the way the hardware does. The two zeros are one value here: nothing in the transformer
  tells them apart (both are falsy and both print as \<^verbatim>\<open>0\<close>).

  The definitions are cut into small steps that pass their intermediate results on as
  arguments, so that the simplifier evaluates each of them once.
\<close>

datatype jsnum = NaN | PosInf | NegInf | Fin int int

function bit_length :: "nat \<Rightarrow> nat" where
  "bit_length n = (if n = 0 then 0 else Suc (bit_length (n div 2)))"
  by pat_completeness auto
termination
  by (relation "measure (\<lambda>n. n)") auto

text \<open>Dropping the factors of two of a mantissa into the exponent.\<close>

function normalise :: "int \<Rightarrow> int \<Rightarrow> jsnum" where
  "normalise m e =
     (if m = 0 then Fin 0 0 else if even m then normalise (m div 2) (e + 1) else Fin m e)"
  by pat_completeness auto
termination
  by (relation "measure (\<lambda>(m, e). nat \<bar>m\<bar>)") auto

text \<open>
  Division of naturals rounded to the nearest integer, ties to the even one: \<open>q\<close> is the
  quotient and \<open>r\<close> the remainder of the division by \<open>d\<close>.
\<close>

definition nearest_even :: "int \<Rightarrow> int \<Rightarrow> int \<Rightarrow> int" where
  "nearest_even q r d =
     (if 2 * r < d then q else if d < 2 * r then q + 1 else if even q then q else q + 1)"

definition round_ties_even :: "int \<Rightarrow> int \<Rightarrow> int" where
  "round_ties_even n d = nearest_even (n div d) (n mod d) d"

text \<open>
  For \<open>0 < a\<close> and \<open>0 < d\<close>: the exponent \<open>x\<close> with \<open>2 ^ x \<le> a / d < 2 ^ (x + 1)\<close>. It is
  the difference of the bit lengths of \<open>a\<close> and \<open>d\<close>, or one less.
\<close>

definition ilog2_near :: "int \<Rightarrow> int \<Rightarrow> int \<Rightarrow> int" where
  "ilog2_near x a d =
     (if (if 0 \<le> x then d * 2 ^ nat x \<le> a else d \<le> a * 2 ^ nat (- x)) then x else x - 1)"

definition ilog2 :: "int \<Rightarrow> int \<Rightarrow> int" where
  "ilog2 a d = ilog2_near (int (bit_length (nat a)) - int (bit_length (nat d))) a d"

text \<open>
  Rounding the exact value \<open>n / d\<close> (with \<open>0 < d\<close>) to binary64, round to nearest, ties to
  even: 53 significant bits, subnormals below \<open>2 ^ -1022\<close>, overflow to infinity. The unit
  in the last place is \<open>2 ^ t\<close> and \<open>m\<close> is the rounded mantissa.
\<close>

definition pack :: "int \<Rightarrow> int \<Rightarrow> int \<Rightarrow> jsnum" where
  "pack n t m =
     (if 972 \<le> t \<or> t = 971 \<and> 2 ^ 53 \<le> m then (if 0 < n then PosInf else NegInf)
      else normalise (if 0 < n then m else - m) t)"

definition round_at :: "int \<Rightarrow> int \<Rightarrow> int \<Rightarrow> jsnum" where
  "round_at t n d =
     pack n t (if 0 \<le> t then round_ties_even \<bar>n\<bar> (d * 2 ^ nat t)
               else round_ties_even (\<bar>n\<bar> * 2 ^ nat (- t)) d)"

definition to_double :: "int \<Rightarrow> int \<Rightarrow> jsnum" where
  "to_double n d =
     (if n = 0 then Fin 0 0 else round_at (max (ilog2 \<bar>n\<bar> d) (- 1022) - 52) n d)"

text \<open>The operator \<^verbatim>\<open>*\<close> on Numbers.\<close>

definition num_sign :: "jsnum \<Rightarrow> int" where
  "num_sign x =
     (case x of NaN \<Rightarrow> 0 | PosInf \<Rightarrow> 1 | NegInf \<Rightarrow> - 1 | Fin m e \<Rightarrow> sgn m)"

definition js_mul :: "jsnum \<Rightarrow> jsnum \<Rightarrow> jsnum" where
  "js_mul x y =
     (case (x, y) of
        (Fin a i, Fin b j) \<Rightarrow>
          (if 0 \<le> i + j then to_double (a * b * 2 ^ nat (i + j)) 1
           else to_double (a * b) (2 ^ nat (- (i + j))))
      | _ \<Rightarrow>
          (if x = NaN \<or> y = NaN \<or> num_sign x * num_sign y = 0 then NaN
           else if 0 < num_sign x * num_sign y then PosInf else NegInf))"

text \<open>Truthiness of a Number: zero and NaN are falsy.\<close>

fun num_truthy :: "jsnum \<Rightarrow> bool" where
  "num_truthy NaN = False"
| "num_truthy (Fin m e) = (m \<noteq> 0)"
| "num_truthy _ = True"

fun isNaN :: "jsnum \<Rightarrow> bool" where
  "isNaN NaN = True"
| "isNaN _ = False"

text \<open>\<^verbatim>\<open>Math.round\<close>: the nearest integer, halves going up.\<close>

fun math_round :: "jsnum \<Rightarrow> jsnum" where
  "math_round (Fin m e) =
     (if 0 \<le> e then Fin m e
      else normalise ((2 * m + 2 ^ nat (- e)) div (2 * 2 ^ nat (- e))) 0)"
| "math_round x = x"

subsection \<open>Number to string\<close>

text \<open>The decimal digit \<open>d\<close>, for \<open>d < 10\<close>.\<close>

definition digit_char :: "nat \<Rightarrow> char" where
  "digit_char d = ''0123456789'' ! d"

function digits :: "nat \<Rightarrow> string" where
  "digits n = (if n < 10 then [digit_char n] else digits (n div 10) @ [digit_char (n mod 10)])"
  by pat_completeness auto
termination
  by (relation "measure (\<lambda>n. n)") auto

text \<open>
  For a positive value \<open>a / b\<close>: the \<open>n\<close> with \<open>10 ^ (n - 1) \<le> a / b < 10 ^ n\<close>.
\<close>

function below_one :: "nat \<Rightarrow> nat \<Rightarrow> nat \<Rightarrow> nat" where
  "below_one a b j = (if a = 0 \<or> b \<le> a * 10 ^ j then j else below_one a b (Suc j))"
  by pat_completeness auto
termination
proof (relation "measure (\<lambda>(a, b, j). b - a * 10 ^ j)")
  show "wf (measure (\<lambda>(a, b, j). b - a * 10 ^ j))" by simp
next
  fix a b j :: nat
  assume h: "\<not> (a = 0 \<or> b \<le> a * 10 ^ j)"
  then have up: "a * 10 ^ j < a * 10 ^ Suc j" by simp
  from h have lt: "a * 10 ^ j < b" by simp
  from up lt have "b - a * 10 ^ Suc j < b - a * 10 ^ j" by (rule diff_less_mono2)
  then show "((a, b, Suc j), (a, b, j)) \<in> measure (\<lambda>(a, b, j). b - a * 10 ^ j)"
    by simp
qed

definition decade :: "int \<Rightarrow> int \<Rightarrow> int" where
  "decade a b =
     (if b \<le> a then int (length (digits (nat (a div b))))
      else 1 - int (below_one (nat a) (nat b) 0))"

text \<open>
  The shortest decimal that reads back as the same Number. With \<open>k\<close> significant digits, the
  two \<open>k\<close>-digit decimals around the value \<open>a / b\<close> are tried, and of those that round to the
  Number \<open>x\<close> the closer one is taken (the even one on a tie). The digits \<open>s\<close> stand for the
  value \<open>s * 10 ^ j\<close>; \<open>lo\<close> is the candidate below the value, \<open>r / den\<close> is how far the
  value lies above it, and \<open>okl\<close> and \<open>okh\<close> say which of the two candidates read back.
\<close>

definition candidate :: "int \<Rightarrow> int \<Rightarrow> jsnum" where
  "candidate j s = (if 0 \<le> j then to_double (s * 10 ^ nat j) 1 else to_double s (10 ^ nat (- j)))"

definition decide :: "int \<Rightarrow> int \<Rightarrow> int \<Rightarrow> bool \<Rightarrow> bool \<Rightarrow> nat option" where
  "decide lo r den okl okh =
     (if okl \<and> okh then
        (if 2 * r < den then Some (nat lo) else if den < 2 * r then Some (nat (lo + 1))
         else if even lo then Some (nat lo) else Some (nat (lo + 1)))
      else if okl then Some (nat lo)
      else if okh then Some (nat (lo + 1))
      else None)"

definition around :: "jsnum \<Rightarrow> int \<Rightarrow> int \<Rightarrow> int \<Rightarrow> int \<Rightarrow> nat option" where
  "around x j lo r den = decide lo r den (candidate j lo = x) (candidate j (lo + 1) = x)"

definition scaled :: "jsnum \<Rightarrow> int \<Rightarrow> int \<Rightarrow> int \<Rightarrow> nat option" where
  "scaled x j num den = around x j (num div den) (num mod den) den"

definition pick_at :: "int \<Rightarrow> jsnum \<Rightarrow> int \<Rightarrow> int \<Rightarrow> nat option" where
  "pick_at j x a b =
     scaled x j (if 0 \<le> j then a else a * 10 ^ nat (- j)) (if 0 \<le> j then b * 10 ^ nat j else b)"

definition pick :: "nat \<Rightarrow> jsnum \<Rightarrow> int \<Rightarrow> int \<Rightarrow> int \<Rightarrow> nat option" where
  "pick k x a b n0 = pick_at (n0 - int k) x a b"

text \<open>
  The search starts at one digit and returns the digits found and their number; seventeen
  always suffice for a binary64 value.
\<close>

function shortest :: "nat \<Rightarrow> jsnum \<Rightarrow> int \<Rightarrow> int \<Rightarrow> int \<Rightarrow> nat \<times> nat" where
  "shortest k x a b n0 =
     (case pick k x a b n0 of
        Some s \<Rightarrow> (s, k)
      | None \<Rightarrow>
          if k < 17 then shortest (Suc k) x a b n0
          else (nat ((if 0 \<le> n0 - int k then a else a * 10 ^ nat (int k - n0)) div
                     (if 0 \<le> n0 - int k then b * 10 ^ nat (n0 - int k) else b)), k))"
  by pat_completeness auto
termination
  by (relation "measure (\<lambda>(k, x, a, b, n0). 17 - k)") auto

definition strip_zeros :: "string \<Rightarrow> string" where
  "strip_zeros s = rev (dropWhile (\<lambda>c. c = CHR ''0'') (rev s))"

function zeros :: "nat \<Rightarrow> string" where
  "zeros n = (if n = 0 then [] else CHR ''0'' # zeros (n - 1))"
  by pat_completeness auto
termination
  by (relation "measure (\<lambda>n. n)") auto

text \<open>
  \<^verbatim>\<open>Number::toString\<close> in radix 10 for a positive finite Number: \<open>ds\<close> are its \<open>k\<close>
  significant digits and \<open>n\<close> is the position of the decimal point.
\<close>

definition layout :: "string \<Rightarrow> nat \<Rightarrow> int \<Rightarrow> string" where
  "layout ds k n =
     (if int k \<le> n \<and> n \<le> 21 then ds @ zeros (nat (n - int k))
      else if 0 < n \<and> n \<le> 21 then take (nat n) ds @ [CHR ''.''] @ drop (nat n) ds
      else if - 6 < n \<and> n \<le> 0 then [CHR ''0'', CHR ''.''] @ zeros (nat (- n)) @ ds
      else if k = 1
        then ds @ [CHR ''e'', if 0 \<le> n - 1 then CHR ''+'' else CHR ''-''] @ digits (nat \<bar>n - 1\<bar>)
      else take 1 ds @ [CHR ''.''] @ drop 1 ds @
           [CHR ''e'', if 0 \<le> n - 1 then CHR ''+'' else CHR ''-''] @ digits (nat \<bar>n - 1\<bar>))"

definition significant :: "string \<Rightarrow> int \<Rightarrow> string" where
  "significant ds n = layout ds (length ds) n"

definition format :: "int \<Rightarrow> nat \<times> nat \<Rightarrow> string" where
  "format n0 sk =
     significant (strip_zeros (digits (fst sk))) (if fst sk = 10 ^ snd sk then n0 + 1 else n0)"

definition search :: "jsnum \<Rightarrow> int \<Rightarrow> int \<Rightarrow> int \<Rightarrow> string" where
  "search x a b n0 = format n0 (shortest 1 x a b n0)"

definition pos_to_string :: "jsnum \<Rightarrow> int \<Rightarrow> int \<Rightarrow> string" where
  "pos_to_string x a b = search x a b (decade a b)"

fun num_to_string :: "jsnum \<Rightarrow> string" where
  "num_to_string NaN = ''NaN''"
| "num_to_string PosInf = ''Infinity''"
| "num_to_string NegInf = ''-Infinity''"
| "num_to_string (Fin m e) =
     (if m = 0 then [CHR ''0'']
      else (if m < 0 then [CHR ''-''] else []) @
           pos_to_string (normalise \<bar>m\<bar> e) (if 0 \<le> e then \<bar>m\<bar> * 2 ^ nat e else \<bar>m\<bar>)
             (if 0 \<le> e then 1 else 2 ^ nat (- e)))"

subsection \<open>String to number\<close>

definition is_digit :: "char \<Rightarrow> bool" where
  "is_digit c = (48 \<le> (of_char c :: nat) \<and> (of_char c :: nat) \<le> 57)"

definition digits_value :: "string \<Rightarrow> int" where
  "digits_value ds = foldl (\<lambda>acc c. 10 * acc + (int (of_char c) - 48)) 0 ds"

definition starts_with :: "string \<Rightarrow> string \<Rightarrow> bool" where
  "starts_with s p = (take (length p) s = p)"

text \<open>
  The value of the decimal \<open>mant * 10 ^ ex\<close> as a Number, negated when \<open>neg\<close>.
\<close>

definition decimal_value :: "bool \<Rightarrow> int \<Rightarrow> int \<Rightarrow> jsnum" where
  "decimal_value neg mant ex =
     (if 0 \<le> ex then to_double ((if neg then - mant else mant) * 10 ^ nat ex) 1
      else to_double (if neg then - mant else mant) (10 ^ nat (- ex)))"

text \<open>
  The exponent part of a decimal literal at the head of \<open>s\<close>: its value and the rest of the
  string. An \<^verbatim>\<open>e\<close> that no digits follow is not an exponent.
\<close>

definition exponent_part :: "string \<Rightarrow> int \<times> string" where
  "exponent_part s =
     (if s \<noteq> [] \<and> (hd s = CHR ''e'' \<or> hd s = CHR ''E'') then
        (let t = tl s;
             neg = (t \<noteq> [] \<and> hd t = CHR ''-'');
             u = (if t \<noteq> [] \<and> (hd t = CHR ''-'' \<or> hd t = CHR ''+'') then tl t else t);
             ds = takeWhile is_digit u
         in if ds = [] then (0, s)
            else (if neg then - digits_value ds else digits_value ds, dropWhile is_digit u))
      else (0, s))"

text \<open>
  The longest decimal literal (\<^verbatim>\<open>StrDecimalLiteral\<close>) at the head of \<open>s\<close>: its value and
  the rest of the string, or nothing when \<open>s\<close> does not start with one.
\<close>

definition unsigned_decimal :: "bool \<Rightarrow> string \<Rightarrow> (jsnum \<times> string) option" where
  "unsigned_decimal neg s =
     (if starts_with s ''Infinity'' then Some (if neg then NegInf else PosInf, drop 8 s)
      else
        let d1 = takeWhile is_digit s;
            r1 = dropWhile is_digit s;
            dot = (r1 \<noteq> [] \<and> hd r1 = CHR ''.'');
            d2 = (if dot then takeWhile is_digit (tl r1) else []);
            r2 = (if dot then dropWhile is_digit (tl r1) else r1)
        in if d1 = [] \<and> d2 = [] then None
           else Some (decimal_value neg (digits_value (d1 @ d2))
                        (fst (exponent_part r2) - int (length d2)),
                      snd (exponent_part r2)))"

definition decimal_literal :: "string \<Rightarrow> (jsnum \<times> string) option" where
  "decimal_literal s =
     (if s \<noteq> [] \<and> hd s = CHR ''-'' then unsigned_decimal True (tl s)
      else if s \<noteq> [] \<and> hd s = CHR ''+'' then unsigned_decimal False (tl s)
      else unsigned_decimal False s)"

text \<open>\<^verbatim>\<open>parseFloat(s)\<close>: leading white space is skipped and what follows the literal is ignored.\<close>

definition parseFloat :: "string \<Rightarrow> jsnum" where
  "parseFloat s = (case decimal_literal (trim_start s) of None \<Rightarrow> NaN | Some (x, r) \<Rightarrow> x)"

text \<open>
  \<^verbatim>\<open>StringToNumber\<close>, the conversion that a comparison with a Number applies to a string: the
  whole trimmed string has to be a numeric literal (decimal, or an unsigned integer in radix
  16, 8 or 2), and the empty string is zero.
\<close>

definition radix_digit :: "char \<Rightarrow> nat" where
  "radix_digit c =
     (let n = (of_char c :: nat)
      in if 48 \<le> n \<and> n \<le> 57 then n - 48
         else if 97 \<le> n \<and> n \<le> 102 then n - 87
         else if 65 \<le> n \<and> n \<le> 70 then n - 55
         else 99)"

definition radix_literal :: "nat \<Rightarrow> string \<Rightarrow> jsnum" where
  "radix_literal b ds =
     (if ds = [] \<or> (\<exists>c \<in> set ds. b \<le> radix_digit c) then NaN
      else to_double (foldl (\<lambda>acc c. int b * acc + int (radix_digit c)) 0 ds) 1)"

definition string_to_number :: "string \<Rightarrow> jsnum" where
  "string_to_number s =
     (let t = trim s
      in if t = [] then Fin 0 0
         else if starts_with t ''0x'' \<or> starts_with t ''0X'' then radix_literal 16 (drop 2 t)
         else if starts_with t ''0o'' \<or> starts_with t ''0O'' then radix_literal 8 (drop 2 t)
         else if starts_with t ''0b'' \<or> starts_with t ''0B'' then radix_literal 2 (drop 2 t)
         else (case decimal_literal t of
                 None \<Rightarrow> NaN
               | Some (x, r) \<Rightarrow> if r = [] then x else NaN))"

section \<open>JavaScript values\<close>

text \<open>
  The per-variant override document \<^verbatim>\<open>field_mapping\<close> is typed
  \<^verbatim>\<open>Record<string, unknown>\<close>: its values are whatever the stored JSON document holds. They
  are modelled by the JSON values below. An object is the list of its properties in the
  order in which JavaScript enumerates them; a property is looked up by its first entry.
\<close>

datatype jsval =
    Undefined
  | Null
  | Bool bool
  | Num jsnum
  | Str string
  | Arr "jsval list"
  | Obj "(string \<times> jsval) list"

text \<open>What \<^verbatim>\<open>if (v)\<close>, \<^verbatim>\<open>!v\<close> and \<^verbatim>\<open>v || w\<close> test.\<close>

fun truthy :: "jsval \<Rightarrow> bool" where
  "truthy Undefined = False"
| "truthy Null = False"
| "truthy (Bool b) = b"
| "truthy (Num n) = num_truthy n"
| "truthy (Str s) = (s \<noteq> [])"
| "truthy (Arr xs) = True"
| "truthy (Obj kvs) = True"

text \<open>
  Reading the property \<open>k\<close> of a value that is neither \<^verbatim>\<open>null\<close> nor \<^verbatim>\<open>undefined\<close>, for
  the property names of the override document (none of them is a property of a built-in
  prototype): only an object can have it. The transformer reads a property of a value of
  the document only after it has tested the value, or through \<^verbatim>\<open>?.\<close>; the one place where
  it does not is written out in \<open>certification_entry\<close> below.
\<close>

fun get_prop :: "jsval \<Rightarrow> string \<Rightarrow> jsval" where
  "get_prop (Obj kvs) k = (case map_of kvs k of None \<Rightarrow> Undefined | Some v \<Rightarrow> v)"
| "get_prop v k = Undefined"

text \<open>Writing the property \<open>k\<close> of an object: in place when it exists, at the end otherwise.\<close>

fun set_prop :: "(string \<times> jsval) list \<Rightarrow> string \<Rightarrow> jsval \<Rightarrow> (string \<times> jsval) list" where
  "set_prop [] k v = [(k, v)]"
| "set_prop ((k', v') # kvs) k v = (if k' = k then (k, v) # kvs else (k', v') # set_prop kvs k v)"

text \<open>
  \<^verbatim>\<open>ToString\<close>, as string concatenation, \<^verbatim>\<open>parseFloat\<close> and \<^verbatim>\<open>join\<close> apply it. The conversion
  of an object calls its \<^verbatim>\<open>toString\<close> method, then its \<^verbatim>\<open>valueOf\<close> method, and takes the first
  primitive result. An array inherits \<^verbatim>\<open>Array.prototype.toString\<close>, which joins the elements
  with commas (\<^verbatim>\<open>null\<close> and \<^verbatim>\<open>undefined\<close> count as empty). An object of the document inherits
  \<^verbatim>\<open>Object.prototype.toString\<close>, which gives \<^verbatim>\<open>[object Object]\<close>, unless it has a property
  \<^verbatim>\<open>toString\<close> of its own: a value of a JSON document is never a function, so that
  property is not callable, \<^verbatim>\<open>valueOf\<close> (its own, not callable, or the inherited one,
  which returns the object) gives no primitive either, and the conversion throws a
  TypeError (\<open>None\<close>). With the hint \<^verbatim>\<open>number\<close> or \<^verbatim>\<open>default\<close> the two methods are tried in
  the other order, with the same outcome.
\<close>

fun to_string :: "jsval \<Rightarrow> string option" where
  "to_string Undefined = Some ''undefined''"
| "to_string Null = Some ''null''"
| "to_string (Bool b) = Some (if b then ''true'' else ''false'')"
| "to_string (Num n) = Some (num_to_string n)"
| "to_string (Str s) = Some s"
| "to_string (Arr xs) =
     map_option (join '','')
       (those (map (\<lambda>x. if x = Undefined \<or> x = Null then Some [] else to_string x) xs))"
| "to_string (Obj kvs) =
     (if map_of kvs ''toString'' = None then Some ''[object Object]'' else None)"

text \<open>\<^verbatim>\<open>xs.join(',')\<close> on an array.\<close>

definition array_join :: "jsval list \<Rightarrow> string option" where
  "array_join xs = to_string (Arr xs)"

text \<open>\<^verbatim>\<open>ToNumber\<close>, as the comparison \<^verbatim>\<open>v > 0\<close> applies it.\<close>

fun to_number :: "jsval \<Rightarrow> jsnum option" where
  "to_number Undefined = Some NaN"
| "to_number Null = Some (Fin 0 0)"
| "to_number (Bool b) = Some (if b then Fin 1 0 else Fin 0 0)"
| "to_number (Num n) = Some n"
| "to_number (Str s) = Some (string_to_number s)"
| "to_number v = map_option string_to_number (to_string v)"

definition positive :: "jsval \<Rightarrow> bool option" where
  "positive v =
     map_option (\<lambda>n. case n of PosInf \<Rightarrow> True | Fin m e \<Rightarrow> 0 < m | _ \<Rightarrow> False) (to_number v)"

text \<open>
  The test \<^verbatim>\<open>v.length > 0\<close>: an array or a string has its length, an object has the property
  \<^verbatim>\<open>length\<close> it was given, if any, and a number or boolean has none; reading the length of
  \<^verbatim>\<open>null\<close> or \<^verbatim>\<open>undefined\<close> throws.
\<close>

fun has_length :: "jsval \<Rightarrow> bool option" where
  "has_length (Arr xs) = Some (xs \<noteq> [])"
| "has_length (Str s) = Some (s \<noteq> [])"
| "has_length Undefined = None"
| "has_length Null = None"
| "has_length v = positive (get_prop v ''length'')"

text \<open>
  \<^verbatim>\<open>Object.entries(v)\<close> for a truthy value: the properties of an object, the indexed elements
  of an array, the indexed characters of a string, nothing for a number or boolean.
\<close>

definition indexed :: "jsval list \<Rightarrow> (string \<times> jsval) list" where
  "indexed xs = zip (map digits [0 ..< length xs]) xs"

fun entries :: "jsval \<Rightarrow> (string \<times> jsval) list" where
  "entries (Obj kvs) = kvs"
| "entries (Arr xs) = indexed xs"
| "entries (Str s) = indexed (map (\<lambda>c. Str [c]) s)"
| "entries v = []"

section \<open>The tracking token\<close>

text \<open>
  \<^verbatim>\<open>encryptToString(data)\<close> is \<^verbatim>\<open>Buffer.from(JSON.stringify(data)).toString('base64')\<close>. Its
  one caller passes an object of three strings (feedId, shopId, createdAt), so
  \<^verbatim>\<open>JSON.stringify\<close> is written out for such an object.
\<close>

definition hex_digit :: "nat \<Rightarrow> char" where
  "hex_digit d = ''0123456789abcdef'' ! d"

text \<open>\<^verbatim>\<open>QuoteJSONString\<close>: how one character appears inside a JSON string.\<close>

definition json_char :: "char \<Rightarrow> string" where
  "json_char c =
     (let n = (of_char c :: nat)
      in if n = 8 then [CHR 0x5C, CHR ''b'']
         else if n = 9 then [CHR 0x5C, CHR ''t'']
         else if n = 10 then [CHR 0x5C, CHR ''n'']
         else if n = 12 then [CHR 0x5C, CHR ''f'']
         else if n = 13 then [CHR 0x5C, CHR ''r'']
         else if n = 34 then [CHR 0x5C, CHR 0x22]
         else if n = 92 then [CHR 0x5C, CHR 0x5C]
         else if n < 32 then [CHR 0x5C, CHR ''u'', CHR ''0'', CHR ''0'', hex_digit (n div 16),
                              hex_digit (n mod 16)]
         else [c])"

definition json_string :: "string \<Rightarrow> string" where
  "json_string s = [CHR 0x22] @ concat (map json_char s) @ [CHR 0x22]"

definition json_token :: "string \<Rightarrow> string \<Rightarrow> string \<Rightarrow> string" where
  "json_token feedId shopId createdAt =
     ''{'' @ json_string ''feedId'' @ '':'' @ json_string feedId @ '','' @
     json_string ''shopId'' @ '':'' @ json_string shopId @ '','' @
     json_string ''createdAt'' @ '':'' @ json_string createdAt @ ''}''"

text \<open>The UTF-8 bytes of a string of characters below 256.\<close>

definition utf8_char :: "char \<Rightarrow> nat list" where
  "utf8_char c =
     (let n = (of_char c :: nat) in if n < 128 then [n] else [192 + n div 64, 128 + n mod 64])"

definition utf8 :: "string \<Rightarrow> nat list" where
  "utf8 s = concat (map utf8_char s)"

definition b64_char :: "nat \<Rightarrow> char" where
  "b64_char i = ''ABCDEFGHIJKLMNOPQRSTUVWXYZabcdefghijklmnopqrstuvwxyz0123456789+/'' ! i"

fun base64 :: "nat list \<Rightarrow> string" where
  "base64 [] = []"
| "base64 [a] = [b64_char (a div 4), b64_char (a mod 4 * 16), CHR ''='', CHR ''='']"
| "base64 [a, b] =
     [b64_char (a div 4), b64_char (a mod 4 * 16 + b div 16), b64_char (b mod 16 * 4), CHR ''='']"
| "base64 (a # b # c # r) =
     [b64_char (a div 4), b64_char (a mod 4 * 16 + b div 16),
      b64_char (b mod 16 * 4 + c div 64), b64_char (c mod 64)] @ base64 r"

definition encryptToString :: "string \<Rightarrow> string \<Rightarrow> string \<Rightarrow> string" where
  "encryptToString feedId shopId createdAt = base64 (utf8 (json_token feedId shopId createdAt))"

section \<open>The input of the transformer\<close>

text \<open>
  The records follow \<^verbatim>\<open>types/transformer-input.ts\<close>. An optional field \<^verbatim>\<open>f?: T\<close> is a
  \<^typ>\<open>'a option\<close> (\<open>None\<close> when the field is absent); a field \<^verbatim>\<open>f?: T | null\<close> is a
  \<open>nullable\<close>, which keeps \<^verbatim>\<open>undefined\<close> and \<^verbatim>\<open>null\<close> apart since string concatenation
  does. Field names that several interfaces share carry the first letters of their
  interface.
\<close>

datatype 'a nullable = Missing | IsNull | Present 'a

record shop =
  shop_name :: "string nullable"
  domain :: "string nullable"

datatype category_id = IdNum jsnum | IdStr string

record gmc_account =
  account_id :: "string option"

record feed_gmc =
  account :: "gmc_account option"
  product_category_id :: "category_id option"

record feed_metadata =
  google_merchant_center :: "feed_gmc option"

record product_settings =
  ps_product_id :: "string option"
  ps_product_title :: "string option"
  ps_product_description :: "string option"
  brand_submission :: "string option"
  ps_product_identifier :: "string option"
  ps_enable_sale_price :: "bool option"

record tracking =
  utm_source :: "string option"
  utm_medium :: "string option"
  utm_campaign :: "string option"

record inventory =
  inventory_type :: "string option"
  custom_setting :: "string option"

record feed =
  feed_id :: string
  shop_id :: string
  language :: string
  market :: string
  currency :: string
  product_settings :: "product_settings option"
  metadata :: "feed_metadata option"
  tracking :: "tracking option"
  inventory :: "inventory option"

record category =
  cat_name :: "string option"
  full_name :: "string option"

record seo =
  seo_title :: "string option"
  seo_description :: "string option"

record product =
  p_title :: "string option"
  p_description :: "string option"
  vendor :: "string nullable"
  handle :: "string option"
  product_type :: "string option"
  category :: "category option"
  collections :: "string option list option option"
  tags :: "string list option option"
  seo :: "seo nullable"

record variant =
  v_id :: string
  v_title :: "string option"
  display_name :: "string option"
  sku :: "string nullable"
  barcode :: "string nullable"
  v_price :: "jsnum option"
  compare_at_price :: "jsnum nullable"

record fpv_gmc =
  offer_id :: "string option"

record fpv_metadata =
  fpv_google_merchant_center :: "fpv_gmc option"

record feed_product_variant =
  product_id :: string
  variant_id :: string
  field_mapping :: "(string \<times> jsval) list option"
  fpv_metadata :: "fpv_metadata option"

record transform_input =
  shop :: shop
  feed :: feed
  product :: product
  variant :: variant
  mainImage :: "string option"
  feedProductVariant :: feed_product_variant

section \<open>The output of the transformer\<close>

text \<open>
  The \<^verbatim>\<open>ProductInput\<close> that \<^verbatim>\<open>transform\<close> returns. A key that the code sets only under a
  condition is an \<^typ>\<open>'a option\<close>, \<open>None\<close> when the key is not set. A value that the code
  copies from the override document is a \<^typ>\<open>jsval\<close>.
\<close>

record money =
  amountMicros :: string
  currencyCode :: string

record effective_date =
  startTime :: "jsval option"
  endTime :: "jsval option"

record dimension =
  dim_value :: jsval
  dim_unit :: jsval

record custom_attribute =
  attr_name :: string
  attr_value :: jsval

record attributes =
  itemGroupId :: string
  title :: string
  description :: string
  identifierExists :: jsval
  price :: money
  brand :: "string option"
  gtins :: "string list option"
  mpn :: "string option"
  link :: "string option"
  canonicalLink :: "string option"
  imageLink :: "jsval option"
  additionalImageLinks :: "jsval option"
  salePrice :: "money option"
  salePriceEffectiveDate :: "effective_date option"
  autoPricingMinPrice :: "money option"
  maximumRetailPrice :: "money option"
  condition :: "jsval option"
  availability :: "jsval option"
  productTypes :: "string list option"
  googleProductCategory :: "jsval option"
  customLabel0 :: "jsval option"
  customLabel1 :: "jsval option"
  customLabel2 :: "jsval option"
  customLabel3 :: "jsval option"
  customLabel4 :: "jsval option"
  gender :: "jsval option"
  ageGroup :: "jsval option"
  size_attr :: "jsval option"
  sizeTypes :: "jsval option"
  sizeSystem :: "jsval option"
  color :: "jsval option"
  material :: "jsval option"
  pattern :: "jsval option"
  adult :: "jsval option"
  isBundle :: "jsval option"
  multipack :: "jsval option"
  energyEfficiencyClass :: "jsval option"
  minEnergyEfficiencyClass :: "jsval option"
  maxEnergyEfficiencyClass :: "jsval option"
  productHighlights :: "jsval option"
  certifications :: "jsval option"
  shippingLabel :: "jsval option"
  shippingWeight :: "dimension option"
  shippingLength :: "dimension option"
  shippingWidth :: "dimension option"
  shippingHeight :: "dimension option"
  transitTimeLabel :: "jsval option"
  minHandlingTime :: "jsval option"
  maxHandlingTime :: "jsval option"

record product_input =
  name :: "string option"
  channel :: string
  offerId :: string
  contentLanguage :: string
  feedLabel :: string
  attributes :: attributes
  customAttributes :: "custom_attribute list"

section \<open>Reading the input\<close>

text \<open>A \<^verbatim>\<open>null\<close> or absent field read where the code does not tell the two apart.\<close>

fun known :: "'a nullable \<Rightarrow> 'a option" where
  "known (Present x) = Some x"
| "known _ = None"

text \<open>\<^verbatim>\<open>s || ''\<close> and \<^verbatim>\<open>s || null\<close> on an optional string: the empty string is falsy.\<close>

definition or_empty :: "string option \<Rightarrow> string" where
  "or_empty x = (case x of None \<Rightarrow> [] | Some s \<Rightarrow> s)"

definition nonempty :: "string option \<Rightarrow> string option" where
  "nonempty x = (case x of None \<Rightarrow> None | Some s \<Rightarrow> if s = [] then None else Some s)"

text \<open>An optional or nullable string in a string concatenation.\<close>

definition concat_opt :: "string option \<Rightarrow> string" where
  "concat_opt x = (case x of None \<Rightarrow> ''undefined'' | Some s \<Rightarrow> s)"

definition concat_nullable :: "string nullable \<Rightarrow> string" where
  "concat_nullable x = (case x of Missing \<Rightarrow> ''undefined'' | IsNull \<Rightarrow> ''null'' | Present s \<Rightarrow> s)"

text \<open>\<^verbatim>\<open>n || 0\<close> on an optional Number.\<close>

definition or_zero :: "jsnum option \<Rightarrow> jsnum" where
  "or_zero x = (case x of None \<Rightarrow> Fin 0 0 | Some n \<Rightarrow> if num_truthy n then n else Fin 0 0)"

text \<open>The Number 1000000, which is \<open>15625 * 2 ^ 6\<close>.\<close>

definition million :: jsnum where
  "million = Fin 15625 6"

text \<open>
  \<^verbatim>\<open>fieldMapping.g\<close>, the override group \<open>g\<close> of the document, and \<^verbatim>\<open>fieldMapping.g.k\<close> read
  the way most getters do: \<^verbatim>\<open>if (fieldMapping) { if (fieldMapping.g) { ... fieldMapping.g.k\<close>.
\<close>

definition group :: "feed_product_variant \<Rightarrow> string \<Rightarrow> jsval" where
  "group fpv g = (case field_mapping fpv of None \<Rightarrow> Undefined | Some kvs \<Rightarrow> get_prop (Obj kvs) g)"

definition override :: "feed_product_variant \<Rightarrow> string \<Rightarrow> string \<Rightarrow> jsval" where
  "override fpv g k = (if truthy (group fpv g) then get_prop (group fpv g) k else Undefined)"

text \<open>
  The receiver of a \<^verbatim>\<open>.replace(...)\<close> or \<^verbatim>\<open>.trim()\<close> call: a string has the method, and on any
  other truthy JSON value the call throws a TypeError (\<open>None\<close>).
\<close>

definition as_template :: "jsval \<Rightarrow> string option" where
  "as_template v = (case v of Str s \<Rightarrow> Some s | _ \<Rightarrow> None)"

section \<open>The getters of the transformer\<close>

definition getItemGroupId :: "feed_product_variant \<Rightarrow> string option" where
  "getItemGroupId fpv =
     (if truthy (override fpv ''product_details'' ''item_group_id'') then
        map_option
          (\<lambda>s. replace ''{{variant_id}}'' (variant_id fpv)
                 (replace ''{{product_id}}'' (product_id fpv) s))
          (as_template (override fpv ''product_details'' ''item_group_id''))
      else Some (product_id fpv))"

definition getProductId :: "feed \<Rightarrow> feed_product_variant \<Rightarrow> string" where
  "getProductId fd fpv =
     (case nonempty (Option.bind (Option.bind (fpv_metadata fpv) fpv_google_merchant_center)
                       offer_id) of
        Some oid \<Rightarrow> oid
      | None \<Rightarrow>
          (case nonempty (Option.bind (product_settings fd) ps_product_id) of
             None \<Rightarrow> []
           | Some pid \<Rightarrow>
               replace ''{{variant_id}}'' (variant_id fpv)
                 (replace ''{{product_id}}'' (product_id fpv)
                   (replace ''{{shop_id}}'' (shop_id fd) pid))))"

definition seo_field :: "product \<Rightarrow> (seo \<Rightarrow> string option) \<Rightarrow> string" where
  "seo_field p f = (case seo p of Present r \<Rightarrow> or_empty (f r) | _ \<Rightarrow> [])"

definition fill_title :: "product \<Rightarrow> variant \<Rightarrow> string \<Rightarrow> string" where
  "fill_title p v s =
     replace ''{{barcode}}'' (or_empty (known (barcode v)))
       (replace ''{{sku}}'' (or_empty (known (sku v)))
         (replace ''{{seo_title}}'' (seo_field p seo_title)
           (replace ''{{display_name}}''
              (case nonempty (display_name v) of
                 Some d \<Rightarrow> d
               | None \<Rightarrow> or_empty (p_title p))
             (replace ''{{variant_title}}'' (or_empty (v_title v))
               (replace ''{{product_title}}'' (or_empty (p_title p)) s)))))"

definition getTitle :: "feed \<Rightarrow> product \<Rightarrow> variant \<Rightarrow> feed_product_variant \<Rightarrow> string option" where
  "getTitle fd p v fpv =
     map_option (fill_title p v)
       (if truthy (override fpv ''product_details'' ''product_title'')
        then as_template (override fpv ''product_details'' ''product_title'')
        else Some (or_empty (Option.bind (product_settings fd) ps_product_title)))"

definition fill_description :: "product \<Rightarrow> string \<Rightarrow> string" where
  "fill_description p s =
     replace ''{{seo_description}}'' (seo_field p seo_description)
       (replace ''{{description}}'' (or_empty (p_description p)) s)"

definition getDescription ::
  "feed \<Rightarrow> product \<Rightarrow> variant \<Rightarrow> feed_product_variant \<Rightarrow> string option" where
  "getDescription fd p v fpv =
     map_option (fill_description p)
       (if truthy (override fpv ''product_details'' ''description'')
        then as_template (override fpv ''product_details'' ''description'')
        else Some (or_empty (Option.bind (product_settings fd) ps_product_description)))"

definition getAccountId :: "feed \<Rightarrow> string" where
  "getAccountId fd =
     or_empty (nonempty (Option.bind (Option.bind (Option.bind (metadata fd)
        google_merchant_center) account) account_id))"

text \<open>
  \<^verbatim>\<open>getPriceAmountMicros\<close> looks for its price type under
  \<^verbatim>\<open>field_mapping.product_details.price_condition_availability\<close>, which has to be an object
  or an array (\<^verbatim>\<open>typeof ... === 'object'\<close>).
\<close>

fun is_object :: "jsval \<Rightarrow> bool" where
  "is_object (Obj kvs) = True"
| "is_object (Arr xs) = True"
| "is_object v = False"

definition getPriceAmountMicros :: "product \<Rightarrow> variant \<Rightarrow> feed_product_variant \<Rightarrow> string" where
  "getPriceAmountMicros p v fpv =
     (let pca = override fpv ''product_details'' ''price_condition_availability'';
          priceType = (if truthy pca \<and> is_object pca \<and> truthy (get_prop pca ''price'')
                       then get_prop pca ''price'' else Str ''price'')
      in num_to_string
           (js_mul
              (if priceType = Str ''price'' then or_zero (v_price v)
               else if priceType = Str ''compare_at_price'' then or_zero (known (compare_at_price v))
               else Fin 0 0)
              million))"

definition getBrand :: "feed \<Rightarrow> shop \<Rightarrow> product \<Rightarrow> feed_product_variant \<Rightarrow> string option" where
  "getBrand fd sh p fpv =
     (let brandSource =
            (if truthy (override fpv ''product_details'' ''brand'')
             then override fpv ''product_details'' ''brand''
             else (case nonempty (Option.bind (product_settings fd) brand_submission) of
                     None \<Rightarrow> Null
                   | Some s \<Rightarrow> Str s))
      in if truthy brandSource then
           (if brandSource = Str ''vendor'' then nonempty (known (vendor p))
            else if brandSource = Str ''store_name'' then nonempty (known (shop_name sh))
            else if brandSource = Str ''primary_domain'' then nonempty (known (domain sh))
            else None)
         else None)"

definition getIdentifierExists :: "feed_product_variant \<Rightarrow> jsval" where
  "getIdentifierExists fpv =
     (if truthy (override fpv ''product_details'' ''product_identifier'')
      then override fpv ''product_details'' ''product_identifier''
      else Bool False)"

definition replaceTemplateVariables :: "string \<Rightarrow> variant \<Rightarrow> feed_product_variant \<Rightarrow> string" where
  "replaceTemplateVariables template v fpv =
     replace ''{{variant_id}}'' (variant_id fpv)
       (replace ''{{product_id}}'' (product_id fpv)
         (replace ''{{sku}}'' (or_empty (known (sku v)))
           (replace ''{{barcode}}'' (or_empty (known (barcode v))) template)))"

text \<open>
  The template \<^verbatim>\<open>productDetails?.gtin\<close> (or \<^verbatim>\<open>mpn\<close>) after substitution: \<open>Some None\<close> when the
  override is falsy and the variable stays \<^verbatim>\<open>undefined\<close>, \<open>None\<close> when the call of
  \<^verbatim>\<open>.replace\<close> throws.
\<close>

definition identifier_template ::
  "string \<Rightarrow> variant \<Rightarrow> feed_product_variant \<Rightarrow> string option option" where
  "identifier_template k v fpv =
     (let t = get_prop (group fpv ''product_details'') k
      in if truthy t then map_option (\<lambda>s. Some (replaceTemplateVariables s v fpv)) (as_template t)
         else Some None)"

text \<open>\<^verbatim>\<open>t && t.trim() !== '' ? t : undefined\<close> on such a template.\<close>

definition valid_identifier :: "string option \<Rightarrow> string option" where
  "valid_identifier t =
     (case t of None \<Rightarrow> None | Some s \<Rightarrow> if s \<noteq> [] \<and> trim s \<noteq> [] then Some s else None)"

text \<open>
  The result of \<^verbatim>\<open>getGtinsMpn\<close> is \<^verbatim>\<open>null\<close> (\<open>None\<close>) or an object of \<^verbatim>\<open>gtins\<close> and \<^verbatim>\<open>mpn\<close>,
  each of which may be \<^verbatim>\<open>null\<close>.
\<close>

definition getGtinsMpn ::
  "feed \<Rightarrow> variant \<Rightarrow> feed_product_variant \<Rightarrow> (string list option \<times> string option) option option"
  where
  "getGtinsMpn fd v fpv =
     (if \<not> truthy (getIdentifierExists fpv) then Some None
      else
        (case nonempty (Option.bind (product_settings fd) ps_product_identifier) of
           None \<Rightarrow> Some None
         | Some productIdentifierType \<Rightarrow>
             if productIdentifierType = ''no'' then Some None
             else do {
               gtinTemplate \<leftarrow> identifier_template ''gtin'' v fpv;
               mpnTemplate \<leftarrow> identifier_template ''mpn'' v fpv;
               Some
                 (if productIdentifierType = ''gtin''
                    then map_option (\<lambda>s. (Some [s], None)) (valid_identifier gtinTemplate)
                  else if productIdentifierType = ''mpn''
                    then map_option (\<lambda>s. (None, Some s)) (valid_identifier mpnTemplate)
                  else None)
             }))"

text \<open>
  The parameter \<^verbatim>\<open>'k=' + links.k\<close> of the \<^verbatim>\<open>links\<close> override group, pushed when \<^verbatim>\<open>links.k\<close> is
  truthy: the concatenation converts the value to a string.
\<close>

definition link_parameter :: "feed_product_variant \<Rightarrow> string \<Rightarrow> string list option" where
  "link_parameter fpv k =
     (if truthy (override fpv ''links'' k)
      then map_option (\<lambda>s. [k @ ''='' @ s]) (to_string (override fpv ''links'' k))
      else Some [])"

text \<open>
  The list \<^verbatim>\<open>utmParameters\<close> that \<^verbatim>\<open>addUtmParameters\<close> builds: the parameters of
  \<^verbatim>\<open>feed.tracking\<close>, those of the \<^verbatim>\<open>links\<close> override group, then the tracking token.
\<close>

definition utmParameters :: "string \<Rightarrow> feed \<Rightarrow> feed_product_variant \<Rightarrow> string list option" where
  "utmParameters now fd fpv = do {
     src \<leftarrow> link_parameter fpv ''utm_source'';
     med \<leftarrow> link_parameter fpv ''utm_medium'';
     cmp \<leftarrow> link_parameter fpv ''utm_campaign'';
     Some
       ((case tracking fd of
           None \<Rightarrow> []
         | Some t \<Rightarrow>
             (case nonempty (utm_source t) of None \<Rightarrow> [] | Some s \<Rightarrow> [''utm_source='' @ s]) @
             (case nonempty (utm_medium t) of None \<Rightarrow> [] | Some s \<Rightarrow> [''utm_medium='' @ s]) @
             (case nonempty (utm_campaign t) of None \<Rightarrow> [] | Some s \<Rightarrow> [''utm_campaign='' @ s])) @
        src @ med @ cmp @
        [''fdclid='' @ encryptToString (feed_id fd) (shop_id fd) now])
   }"

definition addUtmParameters ::
  "string \<Rightarrow> string \<Rightarrow> feed \<Rightarrow> feed_product_variant \<Rightarrow> string option" where
  "addUtmParameters now lnk fd fpv =
     map_option
       (\<lambda>ps. if str_includes lnk ''?'' then lnk @ ''&'' @ join ''&'' ps
             else lnk @ ''?'' @ join ''&'' ps)
       (utmParameters now fd fpv)"

definition getLink ::
  "string \<Rightarrow> shop \<Rightarrow> feed \<Rightarrow> product \<Rightarrow> variant \<Rightarrow> feed_product_variant \<Rightarrow> string option" where
  "getLink now sh fd p v fpv =
     (let lnk = concat_nullable (domain sh) @ ''/products/'' @ concat_opt (handle p);
          linkType = (if truthy (override fpv ''links'' ''product_url'')
                      then override fpv ''links'' ''product_url'' else Str ''product_url'')
      in map_option (\<lambda>l. ''https://'' @ l)
           (addUtmParameters now
              (if linkType = Str ''product_url'' then lnk @ ''?variant='' @ v_id v
               else if linkType = Str ''product_checkout_url''
                 then concat_nullable (domain sh) @ ''/cart/'' @ v_id v @ '':1?storefront=true''
               else lnk)
              fd fpv))"

definition getCanonicalLink :: "shop \<Rightarrow> feed \<Rightarrow> product \<Rightarrow> string" where
  "getCanonicalLink sh fd p =
     ''https://'' @ concat_nullable (domain sh) @ ''/products/'' @ concat_opt (handle p)"

definition getImageLink :: "string option \<Rightarrow> feed_product_variant \<Rightarrow> jsval" where
  "getImageLink img fpv =
     (if truthy (override fpv ''product_images'' ''main_image'')
      then override fpv ''product_images'' ''main_image''
      else (case img of None \<Rightarrow> Null | Some s \<Rightarrow> Str s))"

definition getAdditionalImageLinks :: "feed_product_variant \<Rightarrow> jsval" where
  "getAdditionalImageLinks fpv =
     (if truthy (override fpv ''product_images'' ''additional_images'')
      then override fpv ''product_images'' ''additional_images''
      else Arr [])"

definition getPrice :: "variant \<Rightarrow> feed_product_variant \<Rightarrow> string option" where
  "getPrice v fpv =
     (let priceType = (if truthy (override fpv ''price_condition_availability'' ''price'')
                       then override fpv ''price_condition_availability'' ''price''
                       else Str ''price'')
      in if priceType = Str ''price''
           then Some (num_to_string (js_mul (or_zero (v_price v)) million))
         else if priceType = Str ''compare_at_price''
           then Some (num_to_string (js_mul (or_zero (known (compare_at_price v))) million))
         else None)"

definition getSalePrice ::
  "feed \<Rightarrow> variant \<Rightarrow> feed_product_variant \<Rightarrow> (money \<times> effective_date) option" where
  "getSalePrice fd v fpv =
     (if Option.bind (product_settings fd) ps_enable_sale_price \<noteq> Some True then None
      else if \<not> truthy (group fpv ''price_condition_availability'') then None
      else if \<not> truthy (get_prop (group fpv ''price_condition_availability'') ''enable_sale_price'')
        then None
      else
        let pca = group fpv ''price_condition_availability'';
            salePriceType = get_prop pca ''sale_price''
        in Some
             (\<lparr>amountMicros =
                 (if salePriceType = Str ''price''
                    then num_to_string (js_mul (or_zero (v_price v)) million)
                  else if salePriceType = Str ''compare_at_price''
                    then num_to_string (js_mul (or_zero (known (compare_at_price v))) million)
                  else []),
               currencyCode = []\<rparr>,
              \<lparr>startTime = (if truthy (get_prop pca ''sale_start_date'')
                            then Some (get_prop pca ''sale_start_date'') else None),
               endTime = (if truthy (get_prop pca ''sale_end_date'')
                          then Some (get_prop pca ''sale_end_date'') else None)\<rparr>))"

text \<open>
  The getters that return the override or \<^verbatim>\<open>null\<close>: \<^verbatim>\<open>getAutoPricingMinPrice\<close>,
  \<^verbatim>\<open>getMaximumRetailPrice\<close>, \<^verbatim>\<open>getCondition\<close>, \<^verbatim>\<open>getReturnPolicyLabels\<close>.
\<close>

definition override_or_null :: "feed_product_variant \<Rightarrow> string \<Rightarrow> string \<Rightarrow> jsval" where
  "override_or_null fpv g k = (if truthy (override fpv g k) then override fpv g k else Null)"

definition getAutoPricingMinPrice :: "feed_product_variant \<Rightarrow> jsval" where
  "getAutoPricingMinPrice fpv =
     override_or_null fpv ''price_condition_availability'' ''auto_pricing_min_price''"

definition getMaximumRetailPrice :: "feed_product_variant \<Rightarrow> jsval" where
  "getMaximumRetailPrice fpv =
     override_or_null fpv ''price_condition_availability'' ''maximum_retail_price''"

definition getCondition :: "feed_product_variant \<Rightarrow> jsval" where
  "getCondition fpv = override_or_null fpv ''price_condition_availability'' ''condition''"

definition getAvailability :: "feed \<Rightarrow> feed_product_variant \<Rightarrow> jsval" where
  "getAvailability fd fpv =
     (if truthy (override fpv ''price_condition_availability'' ''availability'')
      then override fpv ''price_condition_availability'' ''availability''
      else
        (case nonempty (Option.bind (inventory fd) inventory_type) of
           None \<Rightarrow> Null
         | Some ty \<Rightarrow>
             (case nonempty (Option.bind (inventory fd) custom_setting) of
                Some cs \<Rightarrow> if ty = ''custom'' then Str cs else Str ty
              | None \<Rightarrow> Str ty)))"

definition getProductType :: "product \<Rightarrow> feed_product_variant \<Rightarrow> string list option" where
  "getProductType p fpv =
     (let productTypeField =
            (if truthy (override fpv ''price_condition_availability'' ''product_type'')
             then override fpv ''price_condition_availability'' ''product_type''
             else Str ''product_type'')
      in if productTypeField = Str ''product_type''
           then map_option (\<lambda>s. [s]) (nonempty (product_type p))
         else if productTypeField = Str ''category_name''
           then map_option (\<lambda>s. [s]) (nonempty (Option.bind (category p) cat_name))
         else if productTypeField = Str ''category_fullname''
           then map_option (\<lambda>s. [s]) (nonempty (Option.bind (category p) full_name))
         else if productTypeField = Str ''collections''
           then map_option (\<lambda>cs. concat (map (\<lambda>t. case nonempty t of None \<Rightarrow> [] | Some s \<Rightarrow> [s]) cs))
                  (Option.bind (collections p) id)
         else if productTypeField = Str ''tags''
           then Option.bind (tags p) id
         else None)"

definition getGoogleProductCategory :: "feed \<Rightarrow> feed_product_variant \<Rightarrow> jsval" where
  "getGoogleProductCategory fd fpv =
     (if truthy (override fpv ''price_condition_availability'' ''google_product_category'')
      then override fpv ''price_condition_availability'' ''google_product_category''
      else
        (case Option.bind (Option.bind (metadata fd) google_merchant_center) product_category_id of
           None \<Rightarrow> Null
         | Some (IdNum n) \<Rightarrow> Str (num_to_string n)
         | Some (IdStr s) \<Rightarrow> if s = [] then Null else Str s))"

definition getCustomLabels :: "feed_product_variant \<Rightarrow> jsval list" where
  "getCustomLabels fpv =
     filter truthy
       (map (override fpv ''labels'')
          [''custom_label_0'', ''custom_label_1'', ''custom_label_2'', ''custom_label_3'',
           ''custom_label_4''])"

text \<open>
  The getters that return an override group or \<^verbatim>\<open>null\<close>: \<^verbatim>\<open>getApparelProductDetails\<close>,
  \<^verbatim>\<open>getShippingAndReturns\<close> (their assignments of a property to itself change nothing) and
  \<^verbatim>\<open>getAdditionalProductAttributes\<close>.
\<close>

definition group_or_null :: "feed_product_variant \<Rightarrow> string \<Rightarrow> jsval" where
  "group_or_null fpv g = (if truthy (group fpv g) then group fpv g else Null)"

definition getApparelProductDetails :: "feed_product_variant \<Rightarrow> jsval" where
  "getApparelProductDetails fpv = group_or_null fpv ''apparel_product_details''"

definition getShippingAndReturns :: "feed_product_variant \<Rightarrow> jsval" where
  "getShippingAndReturns fpv = group_or_null fpv ''shipping_and_returns''"

definition getAdditionalProductAttributes :: "feed_product_variant \<Rightarrow> jsval" where
  "getAdditionalProductAttributes fpv = group_or_null fpv ''additional_product_attributes''"

definition getReturnPolicyLabels :: "feed_product_variant \<Rightarrow> jsval" where
  "getReturnPolicyLabels fpv = override_or_null fpv ''shipping_and_returns'' ''return_policy_labels''"

text \<open>
  \<^verbatim>\<open>getAdditionalDetails\<close> rebuilds the certifications. \<^verbatim>\<open>for (const c of v)\<close> runs over an
  array or over the characters of a string and throws on any other truthy JSON value;
  reading \<^verbatim>\<open>c.authority\<close> throws when \<open>c\<close> is \<^verbatim>\<open>null\<close>. The new array is stored in
  \<^verbatim>\<open>additionalDetails.certifications\<close>, and \<^verbatim>\<open>additionalDetails\<close> is the object inside the
  caller's \<^verbatim>\<open>field_mapping\<close>: the getter returns the group together with the
  \<^verbatim>\<open>feedProductVariant\<close> as the call leaves it.
\<close>

definition iterate :: "jsval \<Rightarrow> jsval list option" where
  "iterate v = (case v of Arr xs \<Rightarrow> Some xs | Str s \<Rightarrow> Some (map (\<lambda>c. Str [c]) s) | _ \<Rightarrow> None)"

definition or_empty_string :: "jsval \<Rightarrow> jsval" where
  "or_empty_string v = (if truthy v then v else Str [])"

definition certification_entry :: "jsval \<Rightarrow> jsval option" where
  "certification_entry c =
     (if c = Undefined \<or> c = Null then None
      else Some (Obj [(''certificationAuthority'', or_empty_string (get_prop c ''authority'')),
                      (''certificationName'', or_empty_string (get_prop c ''name'')),
                      (''certificationCode'', or_empty_string (get_prop c ''code'')),
                      (''certificationValue'', or_empty_string (get_prop c ''value''))]))"

definition store_group :: "feed_product_variant \<Rightarrow> string \<Rightarrow> jsval \<Rightarrow> feed_product_variant" where
  "store_group fpv g x = fpv\<lparr>field_mapping := map_option (\<lambda>kvs. set_prop kvs g x) (field_mapping fpv)\<rparr>"

definition getAdditionalDetails :: "feed_product_variant \<Rightarrow> (jsval \<times> feed_product_variant) option" where
  "getAdditionalDetails fpv =
     (case group fpv ''additional_details'' of
        Obj kvs \<Rightarrow>
          if truthy (get_prop (Obj kvs) ''certifications'') then do {
            cs \<leftarrow> iterate (get_prop (Obj kvs) ''certifications'');
            certs \<leftarrow> those (map certification_entry cs);
            Some (Obj (set_prop kvs ''certifications'' (Arr certs)),
                  store_group fpv ''additional_details''
                    (Obj (set_prop kvs ''certifications'' (Arr certs))))
          } else Some (Obj kvs, fpv)
      | g \<Rightarrow> Some (if truthy g then g else Null, fpv))"

section \<open>The transformation\<close>

text \<open>\<^verbatim>\<open>if (v) attributes.k = v\<close>: the key is set when the value is truthy.\<close>

definition when_truthy :: "jsval \<Rightarrow> jsval option" where
  "when_truthy v = (if truthy v then Some v else None)"

definition when_nonempty :: "string \<Rightarrow> string option" where
  "when_nonempty s = (if s = [] then None else Some s)"

text \<open>
  The price override of \<^verbatim>\<open>autoPricingMinPrice\<close> and \<^verbatim>\<open>maximumRetailPrice\<close>: \<^verbatim>\<open>parseFloat\<close>
  converts the value to a string and reads a decimal from it, which is turned into micros
  and rounded; the key is not set (\<open>Some None\<close>) when the string does not parse.
\<close>

definition parsed_price :: "jsval \<Rightarrow> string \<Rightarrow> money option option" where
  "parsed_price v cur =
     (if truthy v then
        map_option
          (\<lambda>s. if isNaN (parseFloat s) then None
                else Some \<lparr>amountMicros = num_to_string (math_round (js_mul (parseFloat s) million)),
                           currencyCode = cur\<rparr>)
          (to_string v)
      else Some None)"

text \<open>\<^verbatim>\<open>if (customLabels[i]) attributes.customLabeli = customLabels[i]\<close>.\<close>

definition label_at :: "jsval list \<Rightarrow> nat \<Rightarrow> jsval option" where
  "label_at ls i = (if i < length ls \<and> truthy (ls ! i) then Some (ls ! i) else None)"

text \<open>A shipping dimension: set when its value is truthy, with whatever the unit is.\<close>

definition dimension_of :: "jsval \<Rightarrow> string \<Rightarrow> string \<Rightarrow> dimension option" where
  "dimension_of g kv ku =
     (if truthy (get_prop g kv) then Some \<lparr>dim_value = get_prop g kv, dim_unit = get_prop g ku\<rparr>
      else None)"

text \<open>
  The custom attribute of the return policy labels: \<^verbatim>\<open>labels.join(',')\<close> is called when
  \<^verbatim>\<open>labels && labels.length > 0\<close>, and only an array has the method.
\<close>

definition return_policy_attribute :: "jsval \<Rightarrow> custom_attribute list option" where
  "return_policy_attribute labels =
     (if truthy labels then do {
        filled \<leftarrow> has_length labels;
        if filled then
          (case labels of
             Arr xs \<Rightarrow>
               map_option (\<lambda>s. [\<lparr>attr_name = ''return_policy_label'', attr_value = Str s\<rparr>])
                 (array_join xs)
           | _ \<Rightarrow> None)
        else Some []
      }
      else Some [])"

text \<open>
  One custom attribute for each entry of \<^verbatim>\<open>additional_product_attributes\<close>; a value that is
  an array is joined.
\<close>

definition additional_attribute :: "string \<times> jsval \<Rightarrow> custom_attribute option" where
  "additional_attribute kv =
     (case snd kv of
        Arr xs \<Rightarrow> map_option (\<lambda>s. \<lparr>attr_name = fst kv, attr_value = Str s\<rparr>) (array_join xs)
      | v \<Rightarrow> Some \<lparr>attr_name = fst kv, attr_value = v\<rparr>)"

definition additional_attributes :: "jsval \<Rightarrow> custom_attribute list option" where
  "additional_attributes apa = those (map additional_attribute (entries apa))"

text \<open>
  The attributes object, from the input and from the results of the steps that can throw:
  the item group id \<open>igid\<close>, the title \<open>ttl\<close>, the description \<open>dsc\<close>, the identifiers \<open>gm\<close>,
  the link \<open>lnk\<close>, the test \<open>ail\<close> of the length of the additional images, the two parsed
  prices \<open>apm\<close> and \<open>mrp\<close>, and the additional details \<open>ad\<close>.
\<close>

definition build_attributes ::
  "transform_input \<Rightarrow> string \<Rightarrow> string \<Rightarrow> string \<Rightarrow>
   (string list option \<times> string option) option \<Rightarrow> string \<Rightarrow> bool \<Rightarrow> money option \<Rightarrow>
   money option \<Rightarrow> jsval \<Rightarrow> attributes" where
  "build_attributes inp igid ttl dsc gm lnk ail apm mrp ad =
     (let sh = shop inp; fd = feed inp; p = product inp; v = variant inp;
          fpv = feedProductVariant inp;
          cur = toUpperCase (currency fd);
          labels = getCustomLabels fpv;
          apd = getApparelProductDetails fpv;
          sar = getShippingAndReturns fpv
      in \<lparr>itemGroupId = igid,
          title = ttl,
          description = dsc,
          identifierExists = getIdentifierExists fpv,
          price =
            (case Option.bind (getPrice v fpv) when_nonempty of
               Some micros \<Rightarrow> \<lparr>amountMicros = micros, currencyCode = cur\<rparr>
             | None \<Rightarrow> \<lparr>amountMicros = getPriceAmountMicros p v fpv, currencyCode = cur\<rparr>),
          brand = getBrand fd sh p fpv,
          gtins = (case gm of Some (Some gs, m) \<Rightarrow> if gs = [] then None else Some gs | _ \<Rightarrow> None),
          mpn = (case gm of Some (gs, Some m) \<Rightarrow> when_nonempty m | _ \<Rightarrow> None),
          link = when_nonempty lnk,
          canonicalLink = when_nonempty (getCanonicalLink sh fd p),
          imageLink = when_truthy (getImageLink (mainImage inp) fpv),
          additionalImageLinks = (if ail then Some (getAdditionalImageLinks fpv) else None),
          salePrice = map_option fst (getSalePrice fd v fpv),
          salePriceEffectiveDate = map_option snd (getSalePrice fd v fpv),
          autoPricingMinPrice = apm,
          maximumRetailPrice = mrp,
          condition = when_truthy (getCondition fpv),
          availability = when_truthy (getAvailability fd fpv),
          productTypes =
            (case getProductType p fpv of None \<Rightarrow> None | Some ts \<Rightarrow> if ts = [] then None else Some ts),
          googleProductCategory = when_truthy (getGoogleProductCategory fd fpv),
          customLabel0 = label_at labels 0,
          customLabel1 = label_at labels 1,
          customLabel2 = label_at labels 2,
          customLabel3 = label_at labels 3,
          customLabel4 = label_at labels 4,
          gender = when_truthy (get_prop apd ''gender''),
          ageGroup = when_truthy (get_prop apd ''age_group''),
          size_attr = when_truthy (get_prop apd ''size''),
          sizeTypes = when_truthy (get_prop apd ''size_type''),
          sizeSystem = when_truthy (get_prop apd ''size_system''),
          color = when_truthy (get_prop apd ''color''),
          material = when_truthy (get_prop apd ''material''),
          pattern = when_truthy (get_prop apd ''pattern''),
          adult = when_truthy (get_prop ad ''adult''),
          isBundle = when_truthy (get_prop ad ''is_bundle''),
          multipack = when_truthy (get_prop ad ''multipack''),
          energyEfficiencyClass = when_truthy (get_prop ad ''energy_efficiency_class''),
          minEnergyEfficiencyClass = when_truthy (get_prop ad ''min_energy_efficiency_class''),
          maxEnergyEfficiencyClass = when_truthy (get_prop ad ''max_energy_efficiency_class''),
          productHighlights = when_truthy (get_prop ad ''product_highlights''),
          certifications = when_truthy (get_prop ad ''certifications''),
          shippingLabel = when_truthy (get_prop sar ''shipping_label''),
          shippingWeight = dimension_of sar ''shipping_weight_value'' ''shipping_weight_unit'',
          shippingLength = dimension_of sar ''shipping_length_value'' ''shipping_length_unit'',
          shippingWidth = dimension_of sar ''shipping_width_value'' ''shipping_width_unit'',
          shippingHeight = dimension_of sar ''shipping_height_value'' ''shipping_height_unit'',
          transitTimeLabel = when_truthy (get_prop sar ''transit_time_label''),
          minHandlingTime = when_truthy (get_prop sar ''minimun_handling_time''),
          maxHandlingTime = when_truthy (get_prop sar ''maximum_handling_time'')\<rparr>)"

text \<open>The result object around the attributes.\<close>

definition build_result ::
  "transform_input \<Rightarrow> attributes \<Rightarrow> custom_attribute list \<Rightarrow> product_input" where
  "build_result inp attrs customs =
     (let fd = feed inp;
          accountId = getAccountId fd;
          offer = getProductId fd (feedProductVariant inp);
          contentLang = toLowerCase (language fd);
          label = toUpperCase (market fd)
      in \<lparr>name =
            (if accountId = [] then None
             else when_nonempty
                    (''accounts/'' @ accountId @ ''/productInputs/'' @ ''ONLINE'' @ ''~'' @
                     contentLang @ ''~'' @ label @ ''~'' @ offer)),
          channel = ''ONLINE'',
          offerId = offer,
          contentLanguage = contentLang,
          feedLabel = label,
          attributes = attrs,
          customAttributes = customs\<rparr>)"

text \<open>
  \<^verbatim>\<open>transform(input)\<close> at the instant whose \<^verbatim>\<open>new Date().toISOString()\<close> is \<open>now\<close>. The result
  is \<open>None\<close> when the call throws; otherwise it is the \<^verbatim>\<open>ProductInput\<close> returned, together with
  the input object as the call leaves it.
\<close>

definition transform :: "string \<Rightarrow> transform_input \<Rightarrow> (product_input \<times> transform_input) option" where
  "transform now inp = do {
     igid \<leftarrow> getItemGroupId (feedProductVariant inp);
     ttl \<leftarrow> getTitle (feed inp) (product inp) (variant inp) (feedProductVariant inp);
     dsc \<leftarrow> getDescription (feed inp) (product inp) (variant inp) (feedProductVariant inp);
     gm \<leftarrow> getGtinsMpn (feed inp) (variant inp) (feedProductVariant inp);
     lnk \<leftarrow> getLink now (shop inp) (feed inp) (product inp) (variant inp) (feedProductVariant inp);
     ail \<leftarrow> has_length (getAdditionalImageLinks (feedProductVariant inp));
     apm \<leftarrow> parsed_price (getAutoPricingMinPrice (feedProductVariant inp))
              (toUpperCase (currency (feed inp)));
     mrp \<leftarrow> parsed_price (getMaximumRetailPrice (feedProductVariant inp))
              (toUpperCase (currency (feed inp)));
     (ad, fpv') \<leftarrow> getAdditionalDetails (feedProductVariant inp);
     rpl \<leftarrow> return_policy_attribute (getReturnPolicyLabels (feedProductVariant inp));
     apa \<leftarrow> additional_attributes (getAdditionalProductAttributes (feedProductVariant inp));
     Some (build_result inp (build_attributes inp igid ttl dsc gm lnk ail apm mrp ad) (rpl @ apa),
           inp\<lparr>feedProductVariant := fpv'\<rparr>)
   }"

text \<open>
  Two calls of \<^verbatim>\<open>transform\<close> on one input object at one instant: the second call sees the
  object as the first one left it. The result is the two outputs.
\<close>

definition transform_twice :: "string \<Rightarrow> transform_input \<Rightarrow> (product_input \<times> product_input) option"
  where
  "transform_twice now inp = do {
     (out1, inp1) \<leftarrow> transform now inp;
     (out2, inp2) \<leftarrow> transform now inp1;
     Some (out1, out2)
   }"

section \<open>Conditions on the override document\<close>

text \<open>
  The predicates below are not code of the transformer: they name the conditions on the
  override document that the theorems speak of.
\<close>

text \<open>
  The template-substituted value of the identifier override \<open>k\<close> (\<^verbatim>\<open>gtin\<close> or \<^verbatim>\<open>mpn\<close>), when
  the override is a string.
\<close>

definition substituted :: "string \<Rightarrow> transform_input \<Rightarrow> string option" where
  "substituted k inp =
     (case get_prop (group (feedProductVariant inp) ''product_details'') k of
        Str s \<Rightarrow> Some (replaceTemplateVariables s (variant inp) (feedProductVariant inp))
      | _ \<Rightarrow> None)"

text \<open>A value that can stand where a template is expected: a string, or a falsy value.\<close>

definition is_template :: "jsval \<Rightarrow> bool" where
  "is_template v = (case v of Str s \<Rightarrow> True | _ \<Rightarrow> \<not> truthy v)"

text \<open>The identifier templates are read: identifierExists is truthy and the feed submits one.\<close>

definition identifier_active :: "transform_input \<Rightarrow> bool" where
  "identifier_active inp =
     (truthy (getIdentifierExists (feedProductVariant inp)) \<and>
      (case nonempty (Option.bind (product_settings (feed inp)) ps_product_identifier) of
         None \<Rightarrow> False
       | Some t \<Rightarrow> t \<noteq> ''no''))"

text \<open>
  Certifications that the loop can run over: a falsy value, a string, or an array with no
  \<^verbatim>\<open>null\<close> in it.
\<close>

definition is_certification_list :: "jsval \<Rightarrow> bool" where
  "is_certification_list c =
     (case c of
        Arr xs \<Rightarrow> Undefined \<notin> set xs \<and> Null \<notin> set xs
      | Str s \<Rightarrow> True
      | _ \<Rightarrow> \<not> truthy c)"

text \<open>
  A value that can be converted to a string: any value but an object with a property
  \<^verbatim>\<open>toString\<close> of its own, and but an array that holds, at any depth, a value that cannot.
\<close>

fun printable :: "jsval \<Rightarrow> bool" where
  "printable (Arr xs) = list_all printable xs"
| "printable (Obj kvs) = (map_of kvs ''toString'' = None)"
| "printable v = True"

text \<open>
  A value whose length can be compared with 0: its property \<^verbatim>\<open>length\<close>, which only an object
  of the document can have been given, can be converted.
\<close>

definition has_comparable_length :: "jsval \<Rightarrow> bool" where
  "has_comparable_length v = printable (get_prop v ''length'')"

text \<open>
  Return policy labels that can be joined: an array of values that can be converted, or a
  value that is falsy or whose length is not above 0.
\<close>

definition is_label_list :: "jsval \<Rightarrow> bool" where
  "is_label_list l =
     (case l of Arr xs \<Rightarrow> printable l | _ \<Rightarrow> \<not> truthy l \<or> has_length l = Some False)"

text \<open>An attribute value that the code can emit: if it is an array, it can be joined.\<close>

definition is_attribute_value :: "jsval \<Rightarrow> bool" where
  "is_attribute_value v = (case v of Arr xs \<Rightarrow> printable v | _ \<Rightarrow> True)"

text \<open>
  The overrides that the code calls a string method on, converts, iterates over or joins
  have a type with which the operation does not throw.
\<close>

definition well_typed_overrides :: "transform_input \<Rightarrow> bool" where
  "well_typed_overrides inp =
     (let fpv = feedProductVariant inp
      in is_template (override fpv ''product_details'' ''item_group_id'') \<and>
         is_template (override fpv ''product_details'' ''product_title'') \<and>
         is_template (override fpv ''product_details'' ''description'') \<and>
         (if identifier_active inp
          then is_template (override fpv ''product_details'' ''gtin'') \<and>
               is_template (override fpv ''product_details'' ''mpn'')
          else True) \<and>
         (printable (override fpv ''links'' ''utm_source'') \<and>
          printable (override fpv ''links'' ''utm_medium'') \<and>
          printable (override fpv ''links'' ''utm_campaign'')) \<and>
         has_comparable_length (override fpv ''product_images'' ''additional_images'') \<and>
         printable (override fpv ''price_condition_availability'' ''auto_pricing_min_price'') \<and>
         printable (override fpv ''price_condition_availability'' ''maximum_retail_price'') \<and>
         is_certification_list (override fpv ''additional_details'' ''certifications'') \<and>
         is_label_list (override fpv ''shipping_and_returns'' ''return_policy_labels'') \<and>
         list_all is_attribute_value
           (map snd (entries (group fpv ''additional_product_attributes''))))"

section \<open>Example inputs\<close>

text \<open>
  A shop \<^verbatim>\<open>shop.com\<close> with the product \<^verbatim>\<open>tee\<close> and its variant \<^verbatim>\<open>v1\<close>, priced 8.2, in a
  feed with no product settings, metadata, tracking or inventory configuration and with no
  override document.
\<close>

definition plain_input :: transform_input where
  "plain_input =
     \<lparr>shop = \<lparr>shop_name = Missing, domain = Present ''shop.com''\<rparr>,
      feed = \<lparr>feed_id = ''f1'', shop_id = ''s1'', language = ''EN'', market = ''us'',
               currency = ''usd'', product_settings = None, metadata = None, tracking = None,
               inventory = None\<rparr>,
      product = \<lparr>p_title = Some ''Shirt'', p_description = None, vendor = Present ''Acme'',
                  handle = Some ''tee'', product_type = None, category = None,
                  collections = None, tags = None, seo = Missing\<rparr>,
      variant = \<lparr>v_id = ''v1'', v_title = None, display_name = None, sku = Present ''S1'',
                  barcode = Present ''4006381333931'', v_price = Some (to_double 82 10),
                  compare_at_price = Missing\<rparr>,
      mainImage = None,
      feedProductVariant = \<lparr>product_id = ''p1'', variant_id = ''v1'', field_mapping = None,
                             fpv_metadata = None\<rparr>\<rparr>"

text \<open>The same input with the override document \<open>fm\<close>, and with the feed settings \<open>ps\<close>.\<close>

definition with_mapping :: "(string \<times> jsval) list \<Rightarrow> transform_input \<Rightarrow> transform_input" where
  "with_mapping fm inp =
     inp\<lparr>feedProductVariant := (feedProductVariant inp)\<lparr>field_mapping := Some fm\<rparr>\<rparr>"

definition with_settings :: "product_settings \<Rightarrow> transform_input \<Rightarrow> transform_input" where
  "with_settings ps inp = inp\<lparr>feed := (feed inp)\<lparr>product_settings := Some ps\<rparr>\<rparr>"

definition with_inventory :: "inventory \<Rightarrow> transform_input \<Rightarrow> transform_input" where
  "with_inventory settings inp = inp\<lparr>feed := (feed inp)\<lparr>inventory := Some settings\<rparr>\<rparr>"

definition no_settings :: product_settings where
  "no_settings =
     \<lparr>ps_product_id = None, ps_product_title = None, ps_product_description = None,
      brand_submission = None, ps_product_identifier = None, ps_enable_sale_price = None\<rparr>"

text \<open>A feed that submits GTINs, and a variant whose override takes the GTIN from the barcode.\<close>

definition gtin_input :: transform_input where
  "gtin_input =
     with_settings (no_settings\<lparr>ps_product_identifier := Some ''gtin''\<rparr>)
       (with_mapping
          [(''product_details'',
            Obj [(''product_identifier'', Bool True), (''gtin'', Str ''{{barcode}}'')])]
          plain_input)"

text \<open>The same with the string \<^verbatim>\<open>false\<close> for the identifier flag, and the GTIN written out.\<close>

definition string_flag_input :: transform_input where
  "string_flag_input =
     with_settings (no_settings\<lparr>ps_product_identifier := Some ''gtin''\<rparr>)
       (with_mapping
          [(''product_details'',
            Obj [(''product_identifier'', Str ''false''), (''gtin'', Str ''4006381333931'')])]
          plain_input)"

text \<open>Sale prices enabled in the feed and in the override document, with nothing else set.\<close>

definition sale_input :: transform_input where
  "sale_input =
     with_settings (no_settings\<lparr>ps_enable_sale_price := Some True\<rparr>)
       (with_mapping [(''price_condition_availability'', Obj [(''enable_sale_price'', Bool True)])]
          plain_input)"

text \<open>The same with the string \<^verbatim>\<open>false\<close> for the flag of the override document.\<close>

definition string_sale_input :: transform_input where
  "string_sale_input =
     with_settings (no_settings\<lparr>ps_enable_sale_price := Some True\<rparr>)
       (with_mapping [(''price_condition_availability'', Obj [(''enable_sale_price'', Str ''false'')])]
          plain_input)"

text \<open>An override document whose item group id is the number 5.\<close>

definition numeric_group_input :: transform_input where
  "numeric_group_input =
     with_mapping [(''product_details'', Obj [(''item_group_id'', Num (Fin 5 0))])] plain_input"

text \<open>An override document whose \<^verbatim>\<open>utm_source\<close> is the object \<^verbatim>\<open>{"toString": 1}\<close>.\<close>

definition unprintable_source_input :: transform_input where
  "unprintable_source_input =
     with_mapping [(''links'', Obj [(''utm_source'', Obj [(''toString'', Num (Fin 1 0))])])]
       plain_input"

text \<open>An override document with a minimum price that is not a number.\<close>

definition unparsable_price_input :: transform_input where
  "unparsable_price_input =
     with_mapping
       [(''price_condition_availability'', Obj [(''auto_pricing_min_price'', Str ''abc'')])]
       plain_input"

text \<open>A feed with a Merchant Center account, and a variant with an offer id of its own.\<close>

definition account_input :: transform_input where
  "account_input =
     plain_input
       \<lparr>feed := (feed plain_input)\<lparr>metadata :=
          Some \<lparr>google_merchant_center =
                  Some \<lparr>account = Some \<lparr>account_id = Some ''123456''\<rparr>,
                        product_category_id = None\<rparr>\<rparr>\<rparr>,
        feedProductVariant := (feedProductVariant plain_input)\<lparr>fpv_metadata :=
          Some \<lparr>fpv_google_merchant_center = Some \<lparr>offer_id = Some ''offer-1''\<rparr>\<rparr>\<rparr>\<rparr>"

text \<open>An override document with one certification.\<close>

definition certified_input :: transform_input where
  "certified_input =
     with_mapping
       [(''additional_details'',
         Obj [(''certifications'',
               Arr [Obj [(''authority'', Str ''EC''), (''name'', Str ''EPREL''),
                         (''code'', Str ''123''), (''value'', Str ''A'')]])])]
       plain_input"

text \<open>The same input as the first call of \<^verbatim>\<open>transform\<close> leaves it.\<close>

definition certified_once :: transform_input where
  "certified_once =
     with_mapping
       [(''additional_details'',
         Obj [(''certifications'',
               Arr [Obj [(''certificationAuthority'', Str ''EC''),
                         (''certificationName'', Str ''EPREL''),
                         (''certificationCode'', Str ''123''),
                         (''certificationValue'', Str ''A'')]])])]
       plain_input"

text \<open>Custom inventory: with the setting \<^verbatim>\<open>preorder\<close>, and with no setting.\<close>

definition preorder_input :: transform_input where
  "preorder_input =
     with_inventory \<lparr>inventory_type = Some ''custom'', custom_setting = Some ''preorder''\<rparr>
       plain_input"

definition custom_only_input :: transform_input where
  "custom_only_input =
     with_inventory \<lparr>inventory_type = Some ''custom'', custom_setting = None\<rparr> plain_input"

text \<open>The instant of the examples, as \<^verbatim>\<open>new Date().toISOString()\<close> prints it.\<close>

definition noon :: string where
  "noon = ''2026-01-02T12:00:00.000Z''"

section \<open>Evaluation\<close>

text \<open>
  The recursive equations of the number functions are applied on request only, and the
  steps of the number functions are collected for evaluation by the simplifier.
\<close>

declare bit_length.simps [simp del] normalise.simps [simp del] digits.simps [simp del]
  below_one.simps [simp del] shortest.simps [simp del] zeros.simps [simp del]

lemmas num_eval = bit_length.simps normalise.simps digits.simps below_one.simps shortest.simps
  nearest_even_def round_ties_even_def ilog2_near_def ilog2_def pack_def round_at_def
  to_double_def num_sign_def js_mul_def digit_char_def decade_def candidate_def decide_def
  around_def scaled_def pick_at_def pick_def strip_zeros_def zeros.simps layout_def
  significant_def format_def search_def pos_to_string_def

lemmas input_eval = plain_input_def with_mapping_def with_settings_def with_inventory_def
  no_settings_def gtin_input_def sale_input_def numeric_group_input_def
  unparsable_price_input_def account_input_def certified_input_def preorder_input_def
  custom_only_input_def certified_once_def string_flag_input_def string_sale_input_def
  unprintable_source_input_def

lemmas read_eval = group_def override_def as_template_def or_empty_def nonempty_def
  override_or_null_def group_or_null_def

section \<open>The structure of a run\<close>

text \<open>
  A call that returns has got a value from each of the steps that can throw, and its result
  is built from them.
\<close>

lemma transform_Some:
  assumes "transform now inp = Some (out, inp')"
  shows "\<exists>igid ttl dsc gm lnk ail apm mrp ad rpl apa.
    getItemGroupId (feedProductVariant inp) = Some igid \<and>
    getTitle (feed inp) (product inp) (variant inp) (feedProductVariant inp) = Some ttl \<and>
    getDescription (feed inp) (product inp) (variant inp) (feedProductVariant inp) = Some dsc \<and>
    getGtinsMpn (feed inp) (variant inp) (feedProductVariant inp) = Some gm \<and>
    getLink now (shop inp) (feed inp) (product inp) (variant inp) (feedProductVariant inp) =
      Some lnk \<and>
    has_length (getAdditionalImageLinks (feedProductVariant inp)) = Some ail \<and>
    parsed_price (getAutoPricingMinPrice (feedProductVariant inp))
      (toUpperCase (currency (feed inp))) = Some apm \<and>
    parsed_price (getMaximumRetailPrice (feedProductVariant inp))
      (toUpperCase (currency (feed inp))) = Some mrp \<and>
    getAdditionalDetails (feedProductVariant inp) = Some (ad, feedProductVariant inp') \<and>
    return_policy_attribute (getReturnPolicyLabels (feedProductVariant inp)) = Some rpl \<and>
    additional_attributes (getAdditionalProductAttributes (feedProductVariant inp)) = Some apa \<and>
    inp' = inp\<lparr>feedProductVariant := feedProductVariant inp'\<rparr> \<and>
    out = build_result inp (build_attributes inp igid ttl dsc gm lnk ail apm mrp ad) (rpl @ apa)"
  using assms
  by (auto simp: transform_def split: bind_splits prod.splits)

lemma transform_returns:
  "transform now inp \<noteq> None \<longleftrightarrow>
     getItemGroupId (feedProductVariant inp) \<noteq> None \<and>
     getTitle (feed inp) (product inp) (variant inp) (feedProductVariant inp) \<noteq> None \<and>
     getDescription (feed inp) (product inp) (variant inp) (feedProductVariant inp) \<noteq> None \<and>
     getGtinsMpn (feed inp) (variant inp) (feedProductVariant inp) \<noteq> None \<and>
     getLink now (shop inp) (feed inp) (product inp) (variant inp) (feedProductVariant inp) \<noteq>
       None \<and>
     has_length (getAdditionalImageLinks (feedProductVariant inp)) \<noteq> None \<and>
     parsed_price (getAutoPricingMinPrice (feedProductVariant inp))
       (toUpperCase (currency (feed inp))) \<noteq> None \<and>
     parsed_price (getMaximumRetailPrice (feedProductVariant inp))
       (toUpperCase (currency (feed inp))) \<noteq> None \<and>
     getAdditionalDetails (feedProductVariant inp) \<noteq> None \<and>
     return_policy_attribute (getReturnPolicyLabels (feedProductVariant inp)) \<noteq> None \<and>
     additional_attributes (getAdditionalProductAttributes (feedProductVariant inp)) \<noteq> None"
  by (auto simp: transform_def split: bind_splits prod.splits)

lemma attributes_of_result [simp]: "attributes (build_result inp attrs customs) = attrs"
  by (simp add: build_result_def Let_def)

section \<open>Which calls return\<close>

text \<open>Each step that can throw returns exactly when the override it works on is well typed.\<close>

lemma falsy_has_no_property: "\<not> truthy v \<Longrightarrow> get_prop v k = Undefined"
  by (cases v) auto

lemma override_is_property: "override fpv g k = get_prop (group fpv g) k"
  by (simp add: override_def falsy_has_no_property)

lemma as_template_returns: "truthy v \<Longrightarrow> (as_template v \<noteq> None) = is_template v"
  by (cases v) (auto simp: as_template_def is_template_def)

lemma falsy_is_template: "\<not> truthy v \<Longrightarrow> is_template v"
  by (cases v) (auto simp: is_template_def)

lemma getItemGroupId_returns:
  "(getItemGroupId fpv \<noteq> None) = is_template (override fpv ''product_details'' ''item_group_id'')"
  by (simp add: getItemGroupId_def as_template_returns falsy_is_template del: not_None_eq)

lemma getTitle_returns:
  "(getTitle fd p v fpv \<noteq> None) = is_template (override fpv ''product_details'' ''product_title'')"
  by (simp add: getTitle_def as_template_returns falsy_is_template del: not_None_eq)

lemma getDescription_returns:
  "(getDescription fd p v fpv \<noteq> None) = is_template (override fpv ''product_details'' ''description'')"
  by (simp add: getDescription_def as_template_returns falsy_is_template del: not_None_eq)

lemma identifier_template_returns:
  "(identifier_template k v fpv \<noteq> None) = is_template (override fpv ''product_details'' k)"
  by (simp add: identifier_template_def Let_def override_is_property as_template_returns
        falsy_is_template del: not_None_eq)

lemma getGtinsMpn_returns:
  "(getGtinsMpn (feed inp) (variant inp) (feedProductVariant inp) \<noteq> None) =
     (if identifier_active inp
      then is_template (override (feedProductVariant inp) ''product_details'' ''gtin'') \<and>
           is_template (override (feedProductVariant inp) ''product_details'' ''mpn'')
      else True)"
  using identifier_template_returns [of "''gtin''" "variant inp" "feedProductVariant inp"]
    identifier_template_returns [of "''mpn''" "variant inp" "feedProductVariant inp"]
  by (auto simp: getGtinsMpn_def identifier_active_def split: option.splits bind_splits)

lemma those_returns: "(those (map f xs) \<noteq> None) = (\<forall>x \<in> set xs. f x \<noteq> None)"
  by (induction xs) (auto split: option.splits)

lemma to_string_returns: "(to_string v \<noteq> None) = printable v"
proof (induction v rule: to_string.induct)
  case (6 xs)
  have "(those (map (\<lambda>x. if x = Undefined \<or> x = Null then Some [] else to_string x) xs) \<noteq> None) =
        (\<forall>x \<in> set xs. printable x)"
    unfolding those_returns using 6 by (auto simp del: not_None_eq)
  then show ?case
    by (simp add: list_all_iff del: not_None_eq)
qed simp_all

lemma falsy_printable: "\<not> truthy v \<Longrightarrow> printable v"
  by (cases v) auto

lemma link_parameter_returns:
  "(link_parameter fpv k \<noteq> None) = printable (override fpv ''links'' k)"
  by (simp add: link_parameter_def to_string_returns falsy_printable del: not_None_eq)

lemma utmParameters_returns:
  "(utmParameters now fd fpv \<noteq> None) =
     (printable (override fpv ''links'' ''utm_source'') \<and>
      printable (override fpv ''links'' ''utm_medium'') \<and>
      printable (override fpv ''links'' ''utm_campaign''))"
  using link_parameter_returns [of fpv "''utm_source''"]
    link_parameter_returns [of fpv "''utm_medium''"]
    link_parameter_returns [of fpv "''utm_campaign''"]
  by (auto simp: utmParameters_def split: bind_splits)

lemma getLink_returns:
  "(getLink now sh fd p v fpv \<noteq> None) =
     (printable (override fpv ''links'' ''utm_source'') \<and>
      printable (override fpv ''links'' ''utm_medium'') \<and>
      printable (override fpv ''links'' ''utm_campaign''))"
  by (simp add: getLink_def Let_def addUtmParameters_def utmParameters_returns del: not_None_eq)

lemma to_number_returns: "(to_number v \<noteq> None) = printable v"
  by (cases v) (simp_all add: to_string_returns del: not_None_eq to_string.simps)

lemma has_length_returns:
  "(has_length (getAdditionalImageLinks fpv) \<noteq> None) =
     has_comparable_length (override fpv ''product_images'' ''additional_images'')"
  by (cases "override fpv ''product_images'' ''additional_images''")
     (simp_all add: getAdditionalImageLinks_def has_comparable_length_def positive_def
        to_number_returns del: not_None_eq)

lemma parsed_price_returns:
  "(parsed_price (override_or_null fpv g k) cur \<noteq> None) = printable (override fpv g k)"
  by (simp add: parsed_price_def override_or_null_def to_string_returns falsy_printable
        del: not_None_eq)

lemma certification_entry_returns: "(certification_entry c \<noteq> None) = (c \<noteq> Undefined \<and> c \<noteq> Null)"
  by (simp add: certification_entry_def)

lemma iterate_entries_returns:
  "(Option.bind (iterate c) (\<lambda>cs. those (map certification_entry cs)) = None) =
     (case c of Arr xs \<Rightarrow> Undefined \<in> set xs \<or> Null \<in> set xs | Str s \<Rightarrow> False | _ \<Rightarrow> True)"
proof -
  have none: "(those (map certification_entry cs) = None) = (Undefined \<in> set cs \<or> Null \<in> set cs)"
    for cs
    using those_returns [of certification_entry cs]
    by (auto simp: certification_entry_returns simp del: not_None_eq)
  have chars: "those (map certification_entry (map (\<lambda>c. Str [c]) s)) \<noteq> None" for s
    using none [of "map (\<lambda>c. Str [c]) s"] by auto
  show ?thesis
    by (cases c) (auto simp: iterate_def none chars simp del: map_map not_None_eq)
qed

lemma getAdditionalDetails_None:
  "(getAdditionalDetails fpv = None) =
     (case group fpv ''additional_details'' of
        Obj kvs \<Rightarrow>
          truthy (get_prop (Obj kvs) ''certifications'') \<and>
          Option.bind (iterate (get_prop (Obj kvs) ''certifications''))
            (\<lambda>cs. those (map certification_entry cs)) = None
      | _ \<Rightarrow> False)"
  by (auto simp: getAdditionalDetails_def split: jsval.splits bind_splits)

lemma getAdditionalDetails_returns:
  "(getAdditionalDetails fpv \<noteq> None) =
     is_certification_list (override fpv ''additional_details'' ''certifications'')"
proof (cases "group fpv ''additional_details''")
  case (Obj kvs)
  then show ?thesis
    unfolding getAdditionalDetails_None iterate_entries_returns override_is_property
    by (cases "get_prop (Obj kvs) ''certifications''")
       (simp_all add: is_certification_list_def del: get_prop.simps)
qed (simp_all add: getAdditionalDetails_None override_is_property is_certification_list_def)

lemma return_policy_attribute_returns:
  "(return_policy_attribute (getReturnPolicyLabels fpv) \<noteq> None) =
     is_label_list (override fpv ''shipping_and_returns'' ''return_policy_labels'')"
proof (cases "override fpv ''shipping_and_returns'' ''return_policy_labels''")
  case (Arr xs)
  have "(return_policy_attribute (Arr xs) \<noteq> None) = printable (Arr xs)"
  proof (cases "xs = []")
    case True
    then show ?thesis by (simp add: return_policy_attribute_def)
  next
    case False
    then show ?thesis
      using to_string_returns [of "Arr xs"]
      by (auto simp: return_policy_attribute_def array_join_def
            simp del: to_string.simps printable.simps)
  qed
  with Arr show ?thesis
    by (simp add: getReturnPolicyLabels_def override_or_null_def is_label_list_def
          del: not_None_eq printable.simps)
next
  case (Obj kvs)
  then show ?thesis
    by (cases "has_length (Obj kvs)")
       (auto simp: return_policy_attribute_def getReturnPolicyLabels_def override_or_null_def
          is_label_list_def simp del: has_length.simps)
qed (auto simp: return_policy_attribute_def getReturnPolicyLabels_def override_or_null_def
       is_label_list_def positive_def)

lemma additional_attribute_returns: "(additional_attribute kv \<noteq> None) = is_attribute_value (snd kv)"
  using to_string_returns [of "snd kv"]
  by (cases "snd kv")
     (auto simp: additional_attribute_def is_attribute_value_def array_join_def
        simp del: to_string.simps printable.simps)

lemma falsy_has_no_entries: "\<not> truthy v \<Longrightarrow> entries v = []"
  by (cases v) (auto simp: indexed_def)

lemma additional_attributes_returns:
  "(additional_attributes (getAdditionalProductAttributes fpv) \<noteq> None) =
     list_all is_attribute_value (map snd (entries (group fpv ''additional_product_attributes'')))"
proof -
  have "entries (getAdditionalProductAttributes fpv) =
        entries (group fpv ''additional_product_attributes'')"
    by (simp add: getAdditionalProductAttributes_def group_or_null_def falsy_has_no_entries)
  then show ?thesis
    unfolding additional_attributes_def those_returns
    by (simp add: additional_attribute_returns list_all_iff del: not_None_eq)
qed

lemma returns_when_well_typed: "(transform now inp \<noteq> None) = well_typed_overrides inp"
  unfolding transform_returns well_typed_overrides_def Let_def getItemGroupId_returns
    getTitle_returns getDescription_returns getGtinsMpn_returns getLink_returns
    has_length_returns getAutoPricingMinPrice_def getMaximumRetailPrice_def
    parsed_price_returns getAdditionalDetails_returns return_policy_attribute_returns
    additional_attributes_returns
  by (rule refl)

text \<open>What the conditions on the override document unfold to, for evaluation.\<close>

lemmas typed_eval = well_typed_overrides_def identifier_active_def getIdentifierExists_def
  is_template_def has_comparable_length_def is_certification_list_def is_label_list_def
  is_attribute_value_def

lemma plain_like_returns:
  "field_mapping (feedProductVariant inp) = None \<Longrightarrow> transform now inp \<noteq> None"
  by (simp only: returns_when_well_typed) (simp add: typed_eval read_eval Let_def)

lemma plain_returns: "transform now plain_input \<noteq> None"
  by (rule plain_like_returns) (simp add: input_eval)

section \<open>The price in micros\<close>

lemma price_of_attributes:
  "price (build_attributes inp igid ttl dsc gm lnk ail apm mrp ad) =
     (case Option.bind (getPrice (variant inp) (feedProductVariant inp)) when_nonempty of
        Some micros \<Rightarrow> \<lparr>amountMicros = micros, currencyCode = toUpperCase (currency (feed inp))\<rparr>
      | None \<Rightarrow>
          \<lparr>amountMicros = getPriceAmountMicros (product inp) (variant inp) (feedProductVariant inp),
           currencyCode = toUpperCase (currency (feed inp))\<rparr>)"
  by (simp add: build_attributes_def Let_def)

lemma plain_price:
  "getPrice (variant plain_input) (feedProductVariant plain_input) = Some ''8199999.999999999''"
  by (simp add: getPrice_def input_eval read_eval or_zero_def million_def num_eval)

lemma plain_price_rounded:
  "num_to_string (math_round (js_mul (to_double 82 10) million)) = ''8200000''"
  by (simp add: million_def num_eval)

text \<open>
  Which source \<^verbatim>\<open>getPrice\<close> computes the amount from: \<^verbatim>\<open>variant.price\<close> unless the override
  \<^verbatim>\<open>price_condition_availability.price\<close> is \<^verbatim>\<open>compare_at_price\<close>; an absent source counts as 0.
\<close>

lemma price_source:
  assumes "override fpv ''price_condition_availability'' ''price'' \<in>
             {Undefined, Str ''price'', Str ''compare_at_price''}"
  shows "getPrice v fpv =
     Some (num_to_string
       (js_mul
          (if override fpv ''price_condition_availability'' ''price'' = Str ''compare_at_price''
           then or_zero (known (compare_at_price v))
           else or_zero (v_price v))
          million))"
  using assms by (auto simp: getPrice_def Let_def)

text \<open>
  Claim C1 says that \<^verbatim>\<open>attributes.price.amountMicros\<close> is always a string of digits, the
  rounded product of the selected price and 1000000. The code multiplies and prints without
  rounding (\<^verbatim>\<open>String((variant.price || 0) * 1000000)\<close>), so the binary rounding error of the
  product shows: for the variant price 8.2 and no override, the emitted amount is
  \<^verbatim>\<open>8199999.999999999\<close>, which is not a string of digits; \<^verbatim>\<open>Math.round\<close> of the same product,
  which the claim asks for and the code applies to its other prices, prints as
  \<^verbatim>\<open>8200000\<close>.
\<close>

theorem price_micros_not_rounded:
  "(\<exists>out inp'. transform noon plain_input = Some (out, inp') \<and>
     amountMicros (price (attributes out)) = ''8199999.999999999'') \<and>
   num_to_string (math_round (js_mul (or_zero (v_price (variant plain_input))) million)) =
     ''8200000''"
proof -
  obtain out inp' where run: "transform noon plain_input = Some (out, inp')"
    using plain_returns [of noon] by auto
  from transform_Some [OF run] obtain igid ttl dsc gm lnk ail apm mrp ad rpl apa where
    "out = build_result plain_input (build_attributes plain_input igid ttl dsc gm lnk ail apm mrp ad)
            (rpl @ apa)"
    by blast
  then have "amountMicros (price (attributes out)) = ''8199999.999999999''"
    by (simp add: price_of_attributes plain_price when_nonempty_def)
  moreover have "or_zero (v_price (variant plain_input)) = to_double 82 10"
    by (simp add: or_zero_def input_eval num_eval)
  ultimately show ?thesis
    using run plain_price_rounded by auto
qed

section \<open>Product identifiers\<close>

lemma gtins_of_attributes:
  "gtins (build_attributes inp igid ttl dsc gm lnk ail apm mrp ad) =
     (case gm of Some (Some gs, m) \<Rightarrow> if gs = [] then None else Some gs | _ \<Rightarrow> None)"
  by (simp add: build_attributes_def Let_def)

lemma mpn_of_attributes:
  "mpn (build_attributes inp igid ttl dsc gm lnk ail apm mrp ad) =
     (case gm of Some (gs, Some m) \<Rightarrow> when_nonempty m | _ \<Rightarrow> None)"
  by (simp add: build_attributes_def Let_def)

lemma identifier_of_attributes:
  "identifierExists (build_attributes inp igid ttl dsc gm lnk ail apm mrp ad) =
     getIdentifierExists (feedProductVariant inp)"
  by (simp add: build_attributes_def Let_def)

lemma trim_Nil [simp]: "trim [] = []"
  by (simp add: trim_def)

lemma replace_Nil [simp]: "pat \<noteq> [] \<Longrightarrow> replace pat rep [] = []"
  by (simp add: replace_def)

lemma identifier_template_valid:
  assumes "identifier_template k (variant inp) (feedProductVariant inp) = Some t"
  shows "valid_identifier t =
           (case substituted k inp of None \<Rightarrow> None | Some s \<Rightarrow> if trim s \<noteq> [] then Some s else None)"
proof (cases "get_prop (group (feedProductVariant inp) ''product_details'') k")
  case (Str s)
  with assms show ?thesis
    by (cases "s = []")
       (auto simp: identifier_template_def substituted_def valid_identifier_def as_template_def
          replaceTemplateVariables_def)
qed (use assms in \<open>auto simp: identifier_template_def substituted_def valid_identifier_def
       as_template_def split: if_splits\<close>)

lemma gtins_mpn_result:
  assumes "getGtinsMpn (feed inp) (variant inp) (feedProductVariant inp) = Some gm"
  shows "gm =
    (if truthy (getIdentifierExists (feedProductVariant inp)) then
       (if Option.bind (product_settings (feed inp)) ps_product_identifier = Some ''gtin''
          then (case substituted ''gtin'' inp of
                  None \<Rightarrow> None
                | Some s \<Rightarrow> if trim s \<noteq> [] then Some (Some [s], None) else None)
        else if Option.bind (product_settings (feed inp)) ps_product_identifier = Some ''mpn''
          then (case substituted ''mpn'' inp of
                  None \<Rightarrow> None
                | Some s \<Rightarrow> if trim s \<noteq> [] then Some (None, Some s) else None)
        else None)
     else None)"
proof (cases "truthy (getIdentifierExists (feedProductVariant inp))")
  case False
  with assms show ?thesis by (simp add: getGtinsMpn_def)
next
  case on: True
  show ?thesis
  proof (cases "nonempty (Option.bind (product_settings (feed inp)) ps_product_identifier)")
    case None
    with assms on show ?thesis
      by (auto simp: getGtinsMpn_def nonempty_def split: option.splits if_splits)
  next
    case (Some ty)
    then have ty: "Option.bind (product_settings (feed inp)) ps_product_identifier = Some ty"
      by (auto simp: nonempty_def split: option.splits if_splits)
    show ?thesis
    proof (cases "ty = ''no''")
      case True
      with assms on Some ty show ?thesis by (simp add: getGtinsMpn_def)
    next
      case False
      with assms on Some obtain gt mt where
        gt: "identifier_template ''gtin'' (variant inp) (feedProductVariant inp) = Some gt" and
        mt: "identifier_template ''mpn'' (variant inp) (feedProductVariant inp) = Some mt" and
        gm: "gm = (if ty = ''gtin'' then map_option (\<lambda>s. (Some [s], None)) (valid_identifier gt)
                   else if ty = ''mpn'' then map_option (\<lambda>s. (None, Some s)) (valid_identifier mt)
                   else None)"
        by (auto simp: getGtinsMpn_def split: bind_splits)
      show ?thesis
        unfolding gm identifier_template_valid [OF gt] identifier_template_valid [OF mt]
        using on ty by (auto split: option.splits)
    qed
  qed
qed

text \<open>
  Claim C2 says that the output contains \<^verbatim>\<open>gtins\<close> only if the resolved identifierExists is
  \<^verbatim>\<open>true\<close>. The resolved flag is whatever truthy value the override \<^verbatim>\<open>product_identifier\<close>
  holds, and \<^verbatim>\<open>getGtinsMpn\<close> tests it for truthiness only
  (\<^verbatim>\<open>if (!this.getIdentifierExists(...)) return null\<close>): with the string \<^verbatim>\<open>"false"\<close> there, in a
  feed that submits GTINs, the output has \<^verbatim>\<open>gtins\<close>, and its identifierExists is that
  string, not \<^verbatim>\<open>true\<close>.
\<close>

theorem identifier_flag_counterexample:
  "map_option (gtins \<circ> attributes \<circ> fst) (transform noon string_flag_input) =
     Some (Some [''4006381333931'']) \<and>
   map_option (identifierExists \<circ> attributes \<circ> fst) (transform noon string_flag_input) =
     Some (Str ''false'') \<and>
   getIdentifierExists (feedProductVariant string_flag_input) = Str ''false''"
proof -
  have "transform noon string_flag_input \<noteq> None"
    by (simp only: returns_when_well_typed) (simp add: typed_eval input_eval read_eval Let_def)
  then obtain out inp' where run: "transform noon string_flag_input = Some (out, inp')"
    by auto
  from transform_Some [OF run] obtain igid ttl dsc gm lnk ail apm mrp ad rpl apa where
    gm: "getGtinsMpn (feed string_flag_input) (variant string_flag_input)
           (feedProductVariant string_flag_input) = Some gm" and
    out: "out = build_result string_flag_input
            (build_attributes string_flag_input igid ttl dsc gm lnk ail apm mrp ad) (rpl @ apa)"
    by blast
  have flag: "getIdentifierExists (feedProductVariant string_flag_input) = Str ''false''"
    by (simp add: getIdentifierExists_def input_eval read_eval)
  have "getGtinsMpn (feed string_flag_input) (variant string_flag_input)
          (feedProductVariant string_flag_input) = Some (Some (Some [''4006381333931''], None))"
    by (simp add: getGtinsMpn_def getIdentifierExists_def identifier_template_def valid_identifier_def
          replaceTemplateVariables_def replace_def trim_def is_space_def input_eval read_eval)
  with gm have "gm = Some (Some [''4006381333931''], None)" by simp
  with out flag have "gtins (attributes out) = Some [''4006381333931''] \<and>
      identifierExists (attributes out) = Str ''false''"
    by (simp add: gtins_of_attributes identifier_of_attributes)
  with run flag show ?thesis by simp
qed

text \<open>
  Claim C2 as amended: in every call that returns, the output contains \<^verbatim>\<open>gtins\<close>
  (respectively \<^verbatim>\<open>mpn\<close>) if and only if the resolved identifierExists is truthy (any value
  but \<^verbatim>\<open>false\<close>, 0, NaN, the empty string, \<^verbatim>\<open>null\<close> and \<^verbatim>\<open>undefined\<close>), the feed's
  \<^verbatim>\<open>product_identifier\<close> is \<^verbatim>\<open>gtin\<close> (respectively \<^verbatim>\<open>mpn\<close>), and the override is a string whose
  template-substituted value is non-empty after trimming; the value emitted is that
  substituted value; and the GTIN path never sets \<^verbatim>\<open>mpn\<close>, the MPN path never \<^verbatim>\<open>gtins\<close>.
\<close>

theorem gtins_mpn_presence:
  assumes "transform now inp = Some (out, inp')"
  shows "identifierExists (attributes out) = getIdentifierExists (feedProductVariant inp) \<and>
    (gtins (attributes out) \<noteq> None) =
       (truthy (getIdentifierExists (feedProductVariant inp)) \<and>
        Option.bind (product_settings (feed inp)) ps_product_identifier = Some ''gtin'' \<and>
        (\<exists>s. substituted ''gtin'' inp = Some s \<and> trim s \<noteq> [])) \<and>
    (mpn (attributes out) \<noteq> None) =
       (truthy (getIdentifierExists (feedProductVariant inp)) \<and>
        Option.bind (product_settings (feed inp)) ps_product_identifier = Some ''mpn'' \<and>
        (\<exists>s. substituted ''mpn'' inp = Some s \<and> trim s \<noteq> [])) \<and>
    (Option.bind (product_settings (feed inp)) ps_product_identifier = Some ''gtin'' \<longrightarrow>
       mpn (attributes out) = None) \<and>
    (Option.bind (product_settings (feed inp)) ps_product_identifier = Some ''mpn'' \<longrightarrow>
       gtins (attributes out) = None) \<and>
    (gtins (attributes out) \<noteq> None \<longrightarrow>
       map_option (\<lambda>s. [s]) (substituted ''gtin'' inp) = gtins (attributes out)) \<and>
    (mpn (attributes out) \<noteq> None \<longrightarrow> substituted ''mpn'' inp = mpn (attributes out))"
proof -
  from transform_Some [OF assms] obtain igid ttl dsc gm lnk ail apm mrp ad rpl apa where
    gm: "getGtinsMpn (feed inp) (variant inp) (feedProductVariant inp) = Some gm" and
    out: "out = build_result inp (build_attributes inp igid ttl dsc gm lnk ail apm mrp ad)
            (rpl @ apa)"
    by blast
  have nonblank: "trim s \<noteq> [] \<Longrightarrow> s \<noteq> []" for s by auto
  show ?thesis
    unfolding out attributes_of_result gtins_of_attributes mpn_of_attributes
      identifier_of_attributes gtins_mpn_result [OF gm]
    by (auto simp: when_nonempty_def dest: nonblank split: option.splits)
qed


lemma gtin_returns: "transform now gtin_input \<noteq> None"
  by (simp only: returns_when_well_typed) (simp add: typed_eval input_eval read_eval Let_def)

text \<open>
  The theorem at a concrete input: a feed that submits GTINs and an override document with
  \<^verbatim>\<open>product_identifier: true\<close> and \<^verbatim>\<open>gtin: "{{barcode}}"\<close>.
\<close>

theorem gtins_mpn_presence_witness:
  "\<exists>out inp'. transform noon gtin_input = Some (out, inp') \<and>
     gtins (attributes out) = Some [''4006381333931''] \<and> mpn (attributes out) = None"
proof -
  obtain out inp' where run: "transform noon gtin_input = Some (out, inp')"
    using gtin_returns [of noon] by auto
  have sub: "substituted ''gtin'' gtin_input = Some ''4006381333931''"
    by (simp add: substituted_def input_eval read_eval replaceTemplateVariables_def replace_def)
  have blank: "trim ''4006381333931'' \<noteq> []"
    by (simp add: trim_def is_space_def)
  have on: "truthy (getIdentifierExists (feedProductVariant gtin_input))"
    by (simp add: getIdentifierExists_def input_eval read_eval)
  have ty: "Option.bind (product_settings (feed gtin_input)) ps_product_identifier = Some ''gtin''"
    by (simp add: input_eval)
  from gtins_mpn_presence [OF run] sub blank on ty
  have "gtins (attributes out) = Some [''4006381333931''] \<and> mpn (attributes out) = None"
    by auto
  with run show ?thesis by blast
qed

section \<open>The sale price\<close>

lemma salePrice_of_attributes:
  "salePrice (build_attributes inp igid ttl dsc gm lnk ail apm mrp ad) =
     map_option fst (getSalePrice (feed inp) (variant inp) (feedProductVariant inp))"
  by (simp add: build_attributes_def Let_def)

lemma salePriceEffectiveDate_of_attributes:
  "salePriceEffectiveDate (build_attributes inp igid ttl dsc gm lnk ail apm mrp ad) =
     map_option snd (getSalePrice (feed inp) (variant inp) (feedProductVariant inp))"
  by (simp add: build_attributes_def Let_def)

text \<open>
  Claim C3 says that the output contains \<^verbatim>\<open>salePrice\<close> only if the flag
  \<^verbatim>\<open>field_mapping.price_condition_availability.enable_sale_price\<close> is \<^verbatim>\<open>true\<close>. \<^verbatim>\<open>getSalePrice\<close>
  tests the flag of the override document for truthiness only
  (\<^verbatim>\<open>enableSalePrice = priceConditionAvailability.enable_sale_price ?? false\<close>, then
  \<^verbatim>\<open>if (!enableSalePrice) return null\<close>): with the string \<^verbatim>\<open>"false"\<close> there, in a feed that
  enables sale prices, the output has a \<^verbatim>\<open>salePrice\<close>.
\<close>

theorem sale_flag_counterexample:
  "map_option (salePrice \<circ> attributes \<circ> fst) (transform noon string_sale_input) =
     Some (Some \<lparr>amountMicros = [], currencyCode = []\<rparr>) \<and>
   override (feedProductVariant string_sale_input) ''price_condition_availability''
     ''enable_sale_price'' = Str ''false''"
proof -
  have "transform noon string_sale_input \<noteq> None"
    by (simp only: returns_when_well_typed) (simp add: typed_eval input_eval read_eval Let_def)
  then obtain out inp' where run: "transform noon string_sale_input = Some (out, inp')"
    by auto
  from transform_Some [OF run] obtain igid ttl dsc gm lnk ail apm mrp ad rpl apa where
    out: "out = build_result string_sale_input
            (build_attributes string_sale_input igid ttl dsc gm lnk ail apm mrp ad) (rpl @ apa)"
    by blast
  have "salePrice (attributes out) = Some \<lparr>amountMicros = [], currencyCode = []\<rparr>"
    unfolding out attributes_of_result salePrice_of_attributes
    by (simp add: getSalePrice_def Let_def input_eval read_eval)
  moreover have "override (feedProductVariant string_sale_input) ''price_condition_availability''
     ''enable_sale_price'' = Str ''false''"
    by (simp add: input_eval read_eval)
  ultimately show ?thesis using run by simp
qed

text \<open>
  Claim C3 as amended: in every call that returns, the output contains \<^verbatim>\<open>salePrice\<close> if and
  only if \<^verbatim>\<open>feed.product_settings.enable_sale_price\<close> is \<^verbatim>\<open>true\<close> and
  \<^verbatim>\<open>field_mapping.price_condition_availability.enable_sale_price\<close> is truthy (any value but
  \<^verbatim>\<open>false\<close>, 0, NaN, the empty string, \<^verbatim>\<open>null\<close> and \<^verbatim>\<open>undefined\<close>); it is absent whenever the
  flag of the feed is not \<^verbatim>\<open>true\<close>, the flag of the override document is falsy, or the
  override group is missing.
\<close>

theorem sale_price_presence:
  assumes "transform now inp = Some (out, inp')"
  shows "(salePrice (attributes out) \<noteq> None) =
       (Option.bind (product_settings (feed inp)) ps_enable_sale_price = Some True \<and>
        truthy (override (feedProductVariant inp) ''price_condition_availability''
                  ''enable_sale_price'')) \<and>
    (Option.bind (product_settings (feed inp)) ps_enable_sale_price \<noteq> Some True \<longrightarrow>
       salePrice (attributes out) = None) \<and>
    (\<not> truthy (get_prop (group (feedProductVariant inp) ''price_condition_availability'')
                 ''enable_sale_price'') \<longrightarrow>
       salePrice (attributes out) = None) \<and>
    (\<not> truthy (group (feedProductVariant inp) ''price_condition_availability'') \<longrightarrow>
       salePrice (attributes out) = None)"
proof -
  from transform_Some [OF assms] obtain igid ttl dsc gm lnk ail apm mrp ad rpl apa where
    out: "out = build_result inp (build_attributes inp igid ttl dsc gm lnk ail apm mrp ad)
            (rpl @ apa)"
    by blast
  show ?thesis
    unfolding out attributes_of_result salePrice_of_attributes
    by (simp add: getSalePrice_def override_def Let_def)
qed

lemma sale_returns: "transform now sale_input \<noteq> None"
  by (simp only: returns_when_well_typed) (simp add: typed_eval input_eval read_eval Let_def)

text \<open>The theorem at a concrete input with both flags set.\<close>

theorem sale_price_presence_witness:
  "\<exists>out inp'. transform noon sale_input = Some (out, inp') \<and> salePrice (attributes out) \<noteq> None"
proof -
  obtain out inp' where run: "transform noon sale_input = Some (out, inp')"
    using sale_returns [of noon] by auto
  have "Option.bind (product_settings (feed sale_input)) ps_enable_sale_price = Some True \<and>
        truthy (override (feedProductVariant sale_input) ''price_condition_availability''
                  ''enable_sale_price'')"
    by (simp add: input_eval read_eval)
  with sale_price_presence [OF run] have "salePrice (attributes out) \<noteq> None" by simp
  with run show ?thesis by blast
qed

text \<open>
  Claim C10: when the feed enables sale prices, the override group is present and its
  \<^verbatim>\<open>enable_sale_price\<close> is true, the output has both \<^verbatim>\<open>salePrice\<close> and
  \<^verbatim>\<open>salePriceEffectiveDate\<close>; the currency code of the sale price is the empty string, its
  amount is the empty string when the \<^verbatim>\<open>sale_price\<close> source type is absent or unrecognized,
  and the effective date is an empty object when there is no start and no end date.
\<close>

theorem sale_price_placeholders:
  assumes "transform now inp = Some (out, inp')"
    and "Option.bind (product_settings (feed inp)) ps_enable_sale_price = Some True"
    and "truthy (group (feedProductVariant inp) ''price_condition_availability'')"
    and "truthy (get_prop (group (feedProductVariant inp) ''price_condition_availability'')
                   ''enable_sale_price'')"
  shows "\<exists>m d. salePrice (attributes out) = Some m \<and>
      salePriceEffectiveDate (attributes out) = Some d \<and>
      currencyCode m = [] \<and>
      (get_prop (group (feedProductVariant inp) ''price_condition_availability'') ''sale_price''
         \<notin> {Str ''price'', Str ''compare_at_price''} \<longrightarrow> amountMicros m = []) \<and>
      (\<not> truthy (get_prop (group (feedProductVariant inp) ''price_condition_availability'')
                   ''sale_start_date'') \<and>
       \<not> truthy (get_prop (group (feedProductVariant inp) ''price_condition_availability'')
                   ''sale_end_date'') \<longrightarrow>
         d = \<lparr>startTime = None, endTime = None\<rparr>)"
proof -
  from transform_Some [OF assms(1)] obtain igid ttl dsc gm lnk ail apm mrp ad rpl apa where
    out: "out = build_result inp (build_attributes inp igid ttl dsc gm lnk ail apm mrp ad)
            (rpl @ apa)"
    by blast
  show ?thesis
    unfolding out attributes_of_result salePrice_of_attributes salePriceEffectiveDate_of_attributes
    using assms(2-4) by (simp add: getSalePrice_def Let_def)
qed

text \<open>The theorem at a concrete input with both flags set and nothing else configured.\<close>

theorem sale_price_placeholders_witness:
  "\<exists>out inp'. transform noon sale_input = Some (out, inp') \<and>
     salePrice (attributes out) = Some \<lparr>amountMicros = [], currencyCode = []\<rparr> \<and>
     salePriceEffectiveDate (attributes out) = Some \<lparr>startTime = None, endTime = None\<rparr>"
proof -
  obtain out inp' where run: "transform noon sale_input = Some (out, inp')"
    using sale_returns [of noon] by auto
  have on: "Option.bind (product_settings (feed sale_input)) ps_enable_sale_price = Some True"
    and grp: "truthy (group (feedProductVariant sale_input) ''price_condition_availability'')"
    and flag: "truthy (get_prop (group (feedProductVariant sale_input)
                 ''price_condition_availability'') ''enable_sale_price'')"
    and ty: "get_prop (group (feedProductVariant sale_input) ''price_condition_availability'')
               ''sale_price'' \<notin> {Str ''price'', Str ''compare_at_price''}"
    and dates: "\<not> truthy (get_prop (group (feedProductVariant sale_input)
                  ''price_condition_availability'') ''sale_start_date'') \<and>
                \<not> truthy (get_prop (group (feedProductVariant sale_input)
                  ''price_condition_availability'') ''sale_end_date'')"
    by (simp_all add: input_eval read_eval)
  from sale_price_placeholders [OF run on grp flag] ty dates
  have "salePrice (attributes out) = Some \<lparr>amountMicros = [], currencyCode = []\<rparr> \<and>
     salePriceEffectiveDate (attributes out) = Some \<lparr>startTime = None, endTime = None\<rparr>"
    by auto
  with run show ?thesis by blast
qed

section \<open>The resource name\<close>

lemma name_of_result:
  "name (build_result inp attrs customs) =
     (if getAccountId (feed inp) = [] then None
      else Some (''accounts/'' @ getAccountId (feed inp) @ ''/productInputs/ONLINE~'' @
                 toLowerCase (language (feed inp)) @ ''~'' @ toUpperCase (market (feed inp)) @ ''~'' @
                 getProductId (feed inp) (feedProductVariant inp)))"
  by (simp add: build_result_def Let_def when_nonempty_def)

lemma identity_of_result:
  "channel (build_result inp attrs customs) = ''ONLINE'' \<and>
   offerId (build_result inp attrs customs) = getProductId (feed inp) (feedProductVariant inp) \<and>
   contentLanguage (build_result inp attrs customs) = toLowerCase (language (feed inp)) \<and>
   feedLabel (build_result inp attrs customs) = toUpperCase (market (feed inp))"
  by (simp add: build_result_def Let_def)

text \<open>
  Claim C6: the top-level \<^verbatim>\<open>name\<close> is present if and only if the account id resolved from
  \<^verbatim>\<open>feed.metadata.google_merchant_center.account.account_id\<close> is non-empty, and then it is
  \<^verbatim>\<open>accounts/{accountId}/productInputs/{channel}~{contentLanguage}~{feedLabel}~{offerId}\<close>;
  it is never the empty string. This holds of every call that returns.
\<close>

theorem name_presence:
  assumes "transform now inp = Some (out, inp')"
  shows "getAccountId (feed inp) =
       or_empty (Option.bind (Option.bind (Option.bind (metadata (feed inp))
         google_merchant_center) account) account_id) \<and>
    (name out \<noteq> None) = (getAccountId (feed inp) \<noteq> []) \<and>
    (getAccountId (feed inp) \<noteq> [] \<longrightarrow>
       name out = Some (''accounts/'' @ getAccountId (feed inp) @ ''/productInputs/'' @
                        channel out @ ''~'' @ contentLanguage out @ ''~'' @ feedLabel out @
                        ''~'' @ offerId out)) \<and>
    name out \<noteq> Some []"
proof -
  from transform_Some [OF assms] obtain igid ttl dsc gm lnk ail apm mrp ad rpl apa where
    out: "out = build_result inp (build_attributes inp igid ttl dsc gm lnk ail apm mrp ad)
            (rpl @ apa)"
    by blast
  have "getAccountId (feed inp) =
       or_empty (Option.bind (Option.bind (Option.bind (metadata (feed inp))
         google_merchant_center) account) account_id)"
    by (simp add: getAccountId_def or_empty_def nonempty_def split: option.splits)
  then show ?thesis
    unfolding out by (simp add: name_of_result identity_of_result)
qed

lemma account_returns: "transform now account_input \<noteq> None"
  by (simp only: returns_when_well_typed) (simp add: typed_eval input_eval read_eval Let_def)

lemmas case_eval = toUpperCase_def toLowerCase_def upper_char_def lower_char_def letter_pairs_def

text \<open>The theorem at a concrete input with the account id 123456.\<close>

theorem name_presence_witness:
  "\<exists>out inp'. transform noon account_input = Some (out, inp') \<and>
     name out = Some ''accounts/123456/productInputs/ONLINE~en~US~offer-1''"
proof -
  obtain out inp' where run: "transform noon account_input = Some (out, inp')"
    using account_returns [of noon] by auto
  from transform_Some [OF run] obtain igid ttl dsc gm lnk ail apm mrp ad rpl apa where
    out: "out = build_result account_input (build_attributes account_input igid ttl dsc gm lnk ail apm mrp ad)
            (rpl @ apa)"
    by blast
  have acc: "getAccountId (feed account_input) = ''123456''"
    by (simp add: getAccountId_def input_eval read_eval)
  have parts: "channel out = ''ONLINE'' \<and> contentLanguage out = ''en'' \<and> feedLabel out = ''US'' \<and>
      offerId out = ''offer-1''"
    unfolding out identity_of_result [THEN conjunct1]
    by (simp add: identity_of_result getProductId_def input_eval read_eval case_eval)
  from name_presence [OF run] acc parts
  have "name out = Some ''accounts/123456/productInputs/ONLINE~en~US~offer-1''" by simp
  with run show ?thesis by blast
qed

section \<open>Availability\<close>

lemma availability_of_attributes:
  "availability (build_attributes inp igid ttl dsc gm lnk ail apm mrp ad) =
     when_truthy (getAvailability (feed inp) (feedProductVariant inp))"
  by (simp add: build_attributes_def Let_def)

text \<open>
  Claim C9 says that the availability default reads \<^verbatim>\<open>custom_setting\<close> when the inventory
  type is \<^verbatim>\<open>custom\<close>. With the type \<^verbatim>\<open>custom\<close> and no \<^verbatim>\<open>custom_setting\<close> the code does not: the
  guard \<^verbatim>\<open>type === 'custom' && custom_setting\<close> fails and the type string itself is
  emitted.
\<close>

theorem availability_custom_counterexample:
  "map_option (availability \<circ> attributes \<circ> fst) (transform noon custom_only_input) =
     Some (Some (Str ''custom'')) \<and>
   Option.bind (inventory (feed custom_only_input)) custom_setting = None"
proof -
  obtain out inp' where run: "transform noon custom_only_input = Some (out, inp')"
    using plain_like_returns [of custom_only_input noon] by (auto simp: input_eval)
  from transform_Some [OF run] obtain igid ttl dsc gm lnk ail apm mrp ad rpl apa where
    out: "out = build_result custom_only_input
            (build_attributes custom_only_input igid ttl dsc gm lnk ail apm mrp ad)
            (rpl @ apa)"
    by blast
  have "availability (attributes out) = Some (Str ''custom'')"
    unfolding out attributes_of_result availability_of_attributes
    by (simp add: getAvailability_def when_truthy_def input_eval read_eval)
  with run show ?thesis by (simp add: input_eval)
qed

text \<open>
  Claim C9 as amended: a truthy \<^verbatim>\<open>availability\<close> override is emitted as it is. Without one,
  the inventory \<^verbatim>\<open>{type: "custom", custom_setting: "preorder"}\<close> gives \<^verbatim>\<open>preorder\<close>; in
  general the type \<^verbatim>\<open>custom\<close> with a non-empty \<^verbatim>\<open>custom_setting\<close> gives the setting, any other
  non-empty type, and \<^verbatim>\<open>custom\<close> with no setting, gives the type string, and no type gives no
  availability. This holds of every call that returns.
\<close>

theorem availability_resolution:
  assumes "transform now inp = Some (out, inp')"
  shows "(truthy (override (feedProductVariant inp) ''price_condition_availability'' ''availability'') \<longrightarrow>
       availability (attributes out) =
         Some (override (feedProductVariant inp) ''price_condition_availability'' ''availability'')) \<and>
    (\<not> truthy (override (feedProductVariant inp) ''price_condition_availability'' ''availability'') \<longrightarrow>
       (inventory (feed inp) = Some \<lparr>inventory_type = Some ''custom'', custom_setting = Some ''preorder''\<rparr> \<longrightarrow>
          availability (attributes out) = Some (Str ''preorder'')) \<and>
       (\<forall>iv cs. inventory (feed inp) = Some iv \<and> inventory_type iv = Some ''custom'' \<and>
          custom_setting iv = Some cs \<and> cs \<noteq> [] \<longrightarrow>
          availability (attributes out) = Some (Str cs)) \<and>
       (\<forall>iv ty. inventory (feed inp) = Some iv \<and> inventory_type iv = Some ty \<and> ty \<noteq> [] \<and>
          (ty \<noteq> ''custom'' \<or> custom_setting iv = None \<or> custom_setting iv = Some []) \<longrightarrow>
          availability (attributes out) = Some (Str ty)) \<and>
       (inventory (feed inp) = None \<or>
        Option.bind (inventory (feed inp)) inventory_type = None \<or>
        Option.bind (inventory (feed inp)) inventory_type = Some [] \<longrightarrow>
          availability (attributes out) = None))"
proof -
  from transform_Some [OF assms] obtain igid ttl dsc gm lnk ail apm mrp ad rpl apa where
    out: "out = build_result inp (build_attributes inp igid ttl dsc gm lnk ail apm mrp ad)
            (rpl @ apa)"
    by blast
  show ?thesis
    unfolding out attributes_of_result availability_of_attributes
    by (auto simp: getAvailability_def when_truthy_def nonempty_def split: option.splits)
qed

text \<open>The theorem at the input of the scenario.\<close>

theorem availability_resolution_witness:
  "\<exists>out inp'. transform noon preorder_input = Some (out, inp') \<and>
     availability (attributes out) = Some (Str ''preorder'')"
proof -
  obtain out inp' where run: "transform noon preorder_input = Some (out, inp')"
    using plain_like_returns [of preorder_input noon] by (auto simp: input_eval)
  have no: "\<not> truthy (override (feedProductVariant preorder_input)
              ''price_condition_availability'' ''availability'')"
    and iv: "inventory (feed preorder_input) =
              Some \<lparr>inventory_type = Some ''custom'', custom_setting = Some ''preorder''\<rparr>"
    by (simp_all add: input_eval read_eval)
  from availability_resolution [OF run] no iv
  have "availability (attributes out) = Some (Str ''preorder'')" by blast
  with run show ?thesis by blast
qed

section \<open>The product link\<close>

lemma link_of_attributes:
  "link (build_attributes inp igid ttl dsc gm lnk ail apm mrp ad) = when_nonempty lnk"
  by (simp add: build_attributes_def Let_def)

lemma transform_link:
  assumes "transform now inp = Some (out, inp')"
  shows "link (attributes out) =
         Option.bind
           (getLink now (shop inp) (feed inp) (product inp) (variant inp) (feedProductVariant inp))
           when_nonempty"
proof -
  from transform_Some [OF assms] obtain igid ttl dsc gm lnk ail apm mrp ad rpl apa where
    "getLink now (shop inp) (feed inp) (product inp) (variant inp) (feedProductVariant inp) =
       Some lnk"
    and "out = build_result inp (build_attributes inp igid ttl dsc gm lnk ail apm mrp ad) (rpl @ apa)"
    by blast
  then show ?thesis by (simp add: link_of_attributes)
qed

lemma find_sub_char: "(find_sub [c] s = None) = (c \<notin> set s)"
  by (induction s) (auto split: option.splits)

lemma str_includes_char: "str_includes s [c] = (c \<in> set s)"
  by (simp only: str_includes_def find_sub_char not_not)

lemma addUtmParameters_join:
  "addUtmParameters now lnk fd fpv =
     map_option
       (\<lambda>ps. lnk @ [if CHR ''?'' \<in> set lnk then CHR ''&'' else CHR ''?''] @ join ''&'' ps)
       (utmParameters now fd fpv)"
  by (simp add: addUtmParameters_def str_includes_char)

lemma plain_link:
  "getLink noon (shop plain_input) (feed plain_input) (product plain_input) (variant plain_input)
     (feedProductVariant plain_input) =
   Some (''https://shop.com/products/tee?variant=v1&fdclid='' @ encryptToString ''f1'' ''s1'' noon)"
  by (simp add: getLink_def addUtmParameters_join utmParameters_def link_parameter_def
        concat_nullable_def concat_opt_def input_eval read_eval)

text \<open>
  Claim C4 says that for \<^verbatim>\<open>shop.domain = "shop.com"\<close>, \<^verbatim>\<open>product.handle = "tee"\<close>,
  \<^verbatim>\<open>variant.id = "v1"\<close>, no feed tracking and no links override, the link matches
  \<^verbatim>\<open>https://shop.com/products/tee?variant=v1?fdclid=...\<close>. It does not: the default link
  already has a query string, so the token is joined with \<^verbatim>\<open>&\<close>, and the first 48 characters
  of the link are \<^verbatim>\<open>https://shop.com/products/tee?variant=v1&fdclid=\<close>.
\<close>

theorem link_pattern_counterexample:
  "map_option (map_option (take 48) \<circ> link \<circ> attributes \<circ> fst) (transform noon plain_input) =
     Some (Some ''https://shop.com/products/tee?variant=v1&fdclid='')"
proof -
  obtain out inp' where run: "transform noon plain_input = Some (out, inp')"
    using plain_returns [of noon] by auto
  from transform_link [OF run] have "map_option (take 48) (link (attributes out)) =
          Some ''https://shop.com/products/tee?variant=v1&fdclid=''"
    unfolding plain_link by (simp add: when_nonempty_def)
  with run show ?thesis by simp
qed

text \<open>
  Claim C4 as amended: for that input the link is
  \<^verbatim>\<open>https://shop.com/products/tee?variant=v1&fdclid=\<close> followed by the tracking token; and
  in general the parameters are appended to a link after \<^verbatim>\<open>?\<close> when the link has no
  \<^verbatim>\<open>?\<close> in it and after \<^verbatim>\<open>&\<close> otherwise, with \<^verbatim>\<open>&\<close> between the parameters.
\<close>

theorem link_join_rule:
  assumes "transform now inp = Some (out, inp')"
    and "domain (shop inp) = Present ''shop.com''"
    and "handle (product inp) = Some ''tee''"
    and "v_id (variant inp) = ''v1''"
    and "tracking (feed inp) = None"
    and "\<not> truthy (group (feedProductVariant inp) ''links'')"
  shows "link (attributes out) =
       Some (''https://shop.com/products/tee?variant=v1&fdclid='' @
             encryptToString (feed_id (feed inp)) (shop_id (feed inp)) now) \<and>
    (\<forall>lnk fd fpv. addUtmParameters now lnk fd fpv =
       map_option
         (\<lambda>ps. lnk @ [if CHR ''?'' \<in> set lnk then CHR ''&'' else CHR ''?''] @ join ''&'' ps)
         (utmParameters now fd fpv))"
proof -
  have "getLink now (shop inp) (feed inp) (product inp) (variant inp) (feedProductVariant inp) =
       Some (''https://shop.com/products/tee?variant=v1&fdclid='' @
             encryptToString (feed_id (feed inp)) (shop_id (feed inp)) now)"
    using assms(2-6)
    by (simp add: getLink_def addUtmParameters_join utmParameters_def link_parameter_def
          concat_nullable_def concat_opt_def override_def)
  with transform_link [OF assms(1)] have "link (attributes out) =
       Some (''https://shop.com/products/tee?variant=v1&fdclid='' @
             encryptToString (feed_id (feed inp)) (shop_id (feed inp)) now)"
    by (simp add: when_nonempty_def)
  then show ?thesis by (simp add: addUtmParameters_join)
qed

text \<open>The theorem at the input of the scenario.\<close>

theorem link_join_rule_witness:
  "\<exists>out inp'. transform noon plain_input = Some (out, inp') \<and>
     link (attributes out) =
       Some (''https://shop.com/products/tee?variant=v1&fdclid='' @ encryptToString ''f1'' ''s1'' noon)"
proof -
  obtain out inp' where run: "transform noon plain_input = Some (out, inp')"
    using plain_returns [of noon] by auto
  have "domain (shop plain_input) = Present ''shop.com''"
    and "handle (product plain_input) = Some ''tee''"
    and "v_id (variant plain_input) = ''v1''"
    and "tracking (feed plain_input) = None"
    and "\<not> truthy (group (feedProductVariant plain_input) ''links'')"
    and "feed_id (feed plain_input) = ''f1''" and "shop_id (feed plain_input) = ''s1''"
    by (simp_all add: input_eval read_eval)
  with link_join_rule [OF run] have "link (attributes out) =
       Some (''https://shop.com/products/tee?variant=v1&fdclid='' @ encryptToString ''f1'' ''s1'' noon)"
    by simp
  with run show ?thesis by blast
qed

section \<open>Currency codes\<close>

lemma price_currency:
  "currencyCode (price (build_attributes inp igid ttl dsc gm lnk ail apm mrp ad)) =
     toUpperCase (currency (feed inp))"
  by (simp add: price_of_attributes split: option.splits)

text \<open>
  The codes that are case-normalised: the content language, the feed label, and the currency
  code of the price and of the two parsed price overrides.
\<close>

lemma normalised_codes:
  assumes "transform now inp = Some (out, inp')"
  shows "contentLanguage out = toLowerCase (language (feed inp)) \<and>
    feedLabel out = toUpperCase (market (feed inp)) \<and>
    currencyCode (price (attributes out)) = toUpperCase (currency (feed inp)) \<and>
    (\<forall>m. autoPricingMinPrice (attributes out) = Some m \<longrightarrow>
       currencyCode m = toUpperCase (currency (feed inp))) \<and>
    (\<forall>m. maximumRetailPrice (attributes out) = Some m \<longrightarrow>
       currencyCode m = toUpperCase (currency (feed inp)))"
proof -
  from transform_Some [OF assms] obtain igid ttl dsc gm lnk ail apm mrp ad rpl apa where
    apm: "parsed_price (getAutoPricingMinPrice (feedProductVariant inp))
            (toUpperCase (currency (feed inp))) = Some apm" and
    mrp: "parsed_price (getMaximumRetailPrice (feedProductVariant inp))
            (toUpperCase (currency (feed inp))) = Some mrp" and
    out: "out = build_result inp (build_attributes inp igid ttl dsc gm lnk ail apm mrp ad)
            (rpl @ apa)"
    by blast
  have code: "\<forall>m. r = Some m \<longrightarrow> currencyCode m = cur" if "parsed_price v cur = Some r" for v cur r
    using that by (auto simp: parsed_price_def split: if_splits)
  show ?thesis
    unfolding out attributes_of_result price_currency
    using code [OF apm] code [OF mrp]
    by (simp add: identity_of_result build_attributes_def Let_def)
qed

text \<open>
  Claim C7 says that every emitted \<^verbatim>\<open>currencyCode\<close>, the one on \<^verbatim>\<open>salePrice\<close> included, is the
  upper-cased \<^verbatim>\<open>feed.currency\<close>. \<^verbatim>\<open>getSalePrice\<close> creates the sale price with the currency
  code \<^verbatim>\<open>''\<close> and never sets it: with sale prices enabled, the sale price of a feed in
  \<^verbatim>\<open>usd\<close> has the empty currency code, next to a price in \<^verbatim>\<open>USD\<close>.
\<close>

theorem sale_price_currency_empty:
  "\<exists>out inp'. transform noon sale_input = Some (out, inp') \<and>
     map_option currencyCode (salePrice (attributes out)) = Some [] \<and>
     currencyCode (price (attributes out)) = ''USD''"
proof -
  obtain out inp' where run: "transform noon sale_input = Some (out, inp')"
    using sale_returns [of noon] by auto
  from transform_Some [OF run] obtain igid ttl dsc gm lnk ail apm mrp ad rpl apa where
    out: "out = build_result sale_input (build_attributes sale_input igid ttl dsc gm lnk ail apm mrp ad)
            (rpl @ apa)"
    by blast
  have "map_option currencyCode (salePrice (attributes out)) = Some [] \<and>
     currencyCode (price (attributes out)) = ''USD''"
    unfolding out attributes_of_result salePrice_of_attributes price_currency
    by (simp add: getSalePrice_def Let_def input_eval read_eval case_eval)
  with run show ?thesis by blast
qed

section \<open>When a call throws\<close>

lemma transform_parsed_prices:
  assumes "transform now inp = Some (out, inp')"
  shows "parsed_price (getAutoPricingMinPrice (feedProductVariant inp))
           (toUpperCase (currency (feed inp))) = Some (autoPricingMinPrice (attributes out)) \<and>
         parsed_price (getMaximumRetailPrice (feedProductVariant inp))
           (toUpperCase (currency (feed inp))) = Some (maximumRetailPrice (attributes out))"
proof -
  from transform_Some [OF assms] obtain igid ttl dsc gm lnk ail apm mrp ad rpl apa where
    "parsed_price (getAutoPricingMinPrice (feedProductVariant inp))
       (toUpperCase (currency (feed inp))) = Some apm"
    and "parsed_price (getMaximumRetailPrice (feedProductVariant inp))
       (toUpperCase (currency (feed inp))) = Some mrp"
    and "out = build_result inp (build_attributes inp igid ttl dsc gm lnk ail apm mrp ad) (rpl @ apa)"
    by blast
  then show ?thesis by (simp add: build_attributes_def Let_def)
qed

lemma unparsable_dropped:
  assumes "parsed_price v cur = Some r" and "to_string v = Some s" and "isNaN (parseFloat s)"
  shows "r = None"
  using assms by (auto simp: parsed_price_def split: if_splits)

text \<open>
  Claim C5 says that \<^verbatim>\<open>transform\<close> never throws, whatever the override document holds, and
  that a non-string template value is silently dropped. It is not: \<^verbatim>\<open>getItemGroupId\<close> calls
  \<^verbatim>\<open>.replace\<close> on whatever truthy value \<^verbatim>\<open>item_group_id\<close> is, and with the number 5 there the
  call throws a TypeError.
\<close>

theorem non_string_template_counterexample: "transform noon numeric_group_input = None"
proof -
  have "getItemGroupId (feedProductVariant numeric_group_input) = None"
    by (simp add: getItemGroupId_def input_eval read_eval)
  then show ?thesis
    using transform_returns [of noon numeric_group_input] by blast
qed

text \<open>
  A value that cannot be converted to a string makes the call throw as well: the override
  \<^verbatim>\<open>links.utm_source = {"toString": 1}\<close> does, where \<^verbatim>\<open>'utm_source=' + links.utm_source\<close> finds
  no method to convert the object with.
\<close>

lemma unprintable_source_throws: "transform noon unprintable_source_input = None"
proof -
  have "\<not> well_typed_overrides unprintable_source_input"
    by (simp add: typed_eval input_eval read_eval Let_def)
  then show ?thesis
    using returns_when_well_typed [of noon unprintable_source_input] by blast
qed

text \<open>
  Claim C5 as amended: on an input with its required fields and an override document of
  JSON values, \<^verbatim>\<open>transform\<close> returns exactly when the overrides that the code calls a string
  method on, converts, iterates over or joins have a type with which that does not throw: \<^verbatim>\<open>item_group_id\<close>, \<^verbatim>\<open>product_title\<close> and \<^verbatim>\<open>description\<close> are strings or falsy;
  \<^verbatim>\<open>gtin\<close> and \<^verbatim>\<open>mpn\<close> are strings or falsy when the identifier is read; the three UTM
  overrides of \<^verbatim>\<open>links\<close> and the two price overrides \<^verbatim>\<open>auto_pricing_min_price\<close> and
  \<^verbatim>\<open>maximum_retail_price\<close> can be converted to a string (they are no object with a
  \<^verbatim>\<open>toString\<close> property of its own and no array holding one); the \<^verbatim>\<open>length\<close> of
  \<^verbatim>\<open>additional_images\<close> can be converted likewise; \<^verbatim>\<open>certifications\<close> is falsy, a string or
  an array with no \<^verbatim>\<open>null\<close> in it; \<^verbatim>\<open>return_policy_labels\<close> is an array of values that can
  be converted, or is falsy or has no length above 0; and every array among the values of
  \<^verbatim>\<open>additional_product_attributes\<close> can be converted. In particular the call returns when
  there is no override document. In a call that returns, a price override that
  \<^verbatim>\<open>parseFloat\<close> cannot read is dropped.
\<close>

theorem transform_returns_iff:
  "(transform now inp \<noteq> None) = well_typed_overrides inp \<and>
   (field_mapping (feedProductVariant inp) = None \<longrightarrow> transform now inp \<noteq> None) \<and>
   (\<forall>out inp' s. transform now inp = Some (out, inp') \<longrightarrow>
      (to_string (getAutoPricingMinPrice (feedProductVariant inp)) = Some s \<and>
       isNaN (parseFloat s) \<longrightarrow> autoPricingMinPrice (attributes out) = None) \<and>
      (to_string (getMaximumRetailPrice (feedProductVariant inp)) = Some s \<and>
       isNaN (parseFloat s) \<longrightarrow> maximumRetailPrice (attributes out) = None))"
proof -
  have iff: "(transform now inp \<noteq> None) = well_typed_overrides inp"
    by (rule returns_when_well_typed)
  have none: "field_mapping (feedProductVariant inp) = None \<Longrightarrow> transform now inp \<noteq> None"
    by (rule plain_like_returns)
  have dropped: "(to_string (getAutoPricingMinPrice (feedProductVariant inp)) = Some s \<and>
       isNaN (parseFloat s) \<longrightarrow> autoPricingMinPrice (attributes out) = None) \<and>
      (to_string (getMaximumRetailPrice (feedProductVariant inp)) = Some s \<and>
       isNaN (parseFloat s) \<longrightarrow> maximumRetailPrice (attributes out) = None)"
    if run: "transform now inp = Some (out, inp')" for out inp' s
    using transform_parsed_prices [OF run] unparsable_dropped by blast
  from iff none dropped show ?thesis by blast
qed

lemmas parse_eval = parseFloat_def decimal_literal_def unsigned_decimal_def trim_start_def
  is_space_def is_digit_def starts_with_def

text \<open>
  The theorem at a concrete input, the override \<^verbatim>\<open>auto_pricing_min_price: "abc"\<close>.
\<close>

theorem transform_returns_iff_witness:
  "\<exists>out inp'. transform noon unparsable_price_input = Some (out, inp') \<and>
     autoPricingMinPrice (attributes out) = None"
proof -
  have "well_typed_overrides unparsable_price_input"
    by (simp add: typed_eval input_eval read_eval Let_def)
  with transform_returns_iff [of noon unparsable_price_input]
  obtain out inp' where run: "transform noon unparsable_price_input = Some (out, inp')"
    by auto
  have "to_string (getAutoPricingMinPrice (feedProductVariant unparsable_price_input)) =
          Some ''abc'' \<and> isNaN (parseFloat ''abc'')"
    by (simp add: getAutoPricingMinPrice_def input_eval read_eval parse_eval Let_def)
  with transform_returns_iff [of noon unparsable_price_input] run
  have "autoPricingMinPrice (attributes out) = None" by blast
  with run show ?thesis by blast
qed

section \<open>Two runs\<close>

lemma certifications_of_attributes:
  "certifications (build_attributes inp igid ttl dsc gm lnk ail apm mrp ad) =
     when_truthy (get_prop ad ''certifications'')"
  by (simp add: build_attributes_def Let_def)

lemma transform_certifications:
  assumes "transform now inp = Some (out, inp')"
    and "getAdditionalDetails (feedProductVariant inp) = Some (ad, fpv')"
  shows "certifications (attributes out) = when_truthy (get_prop ad ''certifications'') \<and>
    inp' = inp\<lparr>feedProductVariant := fpv'\<rparr>"
proof -
  from transform_Some [OF assms(1)] obtain igid ttl dsc gm lnk ail apm mrp ad0 rpl apa where
    ad0: "getAdditionalDetails (feedProductVariant inp) = Some (ad0, feedProductVariant inp')" and
    inp': "inp' = inp\<lparr>feedProductVariant := feedProductVariant inp'\<rparr>" and
    out: "out = build_result inp (build_attributes inp igid ttl dsc gm lnk ail apm mrp ad0)
            (rpl @ apa)"
    by blast
  from ad0 assms(2) have "ad0 = ad" and "feedProductVariant inp' = fpv'" by simp_all
  with inp' out show ?thesis
    by (simp add: certifications_of_attributes)
qed

lemma first_run_details:
  "getAdditionalDetails (feedProductVariant certified_input) =
     Some (Obj [(''certifications'',
                 Arr [Obj [(''certificationAuthority'', Str ''EC''),
                           (''certificationName'', Str ''EPREL''),
                           (''certificationCode'', Str ''123''),
                           (''certificationValue'', Str ''A'')]])],
           feedProductVariant certified_once)"
  by (simp add: getAdditionalDetails_def iterate_def certification_entry_def or_empty_string_def
        store_group_def input_eval read_eval)

lemma second_run_details:
  "getAdditionalDetails (feedProductVariant certified_once) =
     Some (Obj [(''certifications'',
                 Arr [Obj [(''certificationAuthority'', Str []),
                           (''certificationName'', Str []),
                           (''certificationCode'', Str []),
                           (''certificationValue'', Str [])]])],
           (feedProductVariant plain_input)\<lparr>field_mapping := Some
             [(''additional_details'',
               Obj [(''certifications'',
                 Arr [Obj [(''certificationAuthority'', Str []),
                           (''certificationName'', Str []),
                           (''certificationCode'', Str []),
                           (''certificationValue'', Str [])]])])]\<rparr>)"
  by (simp add: getAdditionalDetails_def iterate_def certification_entry_def or_empty_string_def
        store_group_def input_eval read_eval)

lemma certified_returns:
  "transform now certified_input \<noteq> None" "transform now certified_once \<noteq> None"
  by (simp_all only: returns_when_well_typed)
     (simp_all add: typed_eval input_eval read_eval Let_def)

text \<open>
  Claim C8 says that running \<^verbatim>\<open>transform\<close> twice on the same input with a frozen clock gives
  identical outputs. \<^verbatim>\<open>getAdditionalDetails\<close> stores the rebuilt certifications in the
  caller's \<^verbatim>\<open>field_mapping.additional_details\<close>, so a second call on the same object reads
  the rebuilt entries, which have no \<^verbatim>\<open>authority\<close>, \<^verbatim>\<open>name\<close>, \<^verbatim>\<open>code\<close> or \<^verbatim>\<open>value\<close>, and emits
  empty certifications: the two outputs differ.
\<close>

theorem second_run_differs:
  "map_option (map_prod (certifications \<circ> attributes) (certifications \<circ> attributes))
     (transform_twice noon certified_input) =
   Some (Some (Arr [Obj [(''certificationAuthority'', Str ''EC''),
                         (''certificationName'', Str ''EPREL''),
                         (''certificationCode'', Str ''123''),
                         (''certificationValue'', Str ''A'')]]),
         Some (Arr [Obj [(''certificationAuthority'', Str []),
                         (''certificationName'', Str []),
                         (''certificationCode'', Str []),
                         (''certificationValue'', Str [])]]))"
proof -
  obtain out1 inp1 where run1: "transform noon certified_input = Some (out1, inp1)"
    using certified_returns(1) [of noon] by auto
  from transform_certifications [OF run1 first_run_details]
  have c1: "certifications (attributes out1) =
              Some (Arr [Obj [(''certificationAuthority'', Str ''EC''),
                              (''certificationName'', Str ''EPREL''),
                              (''certificationCode'', Str ''123''),
                              (''certificationValue'', Str ''A'')]])"
    and inp1: "inp1 = certified_once"
    by (simp_all add: when_truthy_def input_eval)
  obtain out2 inp2 where run2: "transform noon certified_once = Some (out2, inp2)"
    using certified_returns(2) [of noon] by auto
  from transform_certifications [OF run2 second_run_details]
  have c2: "certifications (attributes out2) =
              Some (Arr [Obj [(''certificationAuthority'', Str []),
                              (''certificationName'', Str []),
                              (''certificationCode'', Str []),
                              (''certificationValue'', Str [])]])"
    by (simp add: when_truthy_def)
  from run1 run2 inp1 have "transform_twice noon certified_input = Some (out1, out2)"
    by (simp add: transform_twice_def)
  with c1 c2 show ?thesis by simp
qed

text \<open>
  What does hold: at another instant the call returns the same output but for the link, and
  a call leaves an input with no certifications as it was.
\<close>

lemma clock_only_in_link:
  assumes "transform t1 inp = Some (out1, inp1)"
  shows "\<exists>out2. transform t2 inp = Some (out2, inp1) \<and>
     out2 = out1\<lparr>attributes := (attributes out1)\<lparr>link := link (attributes out2)\<rparr>\<rparr>"
proof -
  from transform_Some [OF assms] obtain igid ttl dsc gm lnk ail apm mrp ad rpl apa where
    g: "getItemGroupId (feedProductVariant inp) = Some igid"
       "getTitle (feed inp) (product inp) (variant inp) (feedProductVariant inp) = Some ttl"
       "getDescription (feed inp) (product inp) (variant inp) (feedProductVariant inp) = Some dsc"
       "getGtinsMpn (feed inp) (variant inp) (feedProductVariant inp) = Some gm"
       "has_length (getAdditionalImageLinks (feedProductVariant inp)) = Some ail"
       "parsed_price (getAutoPricingMinPrice (feedProductVariant inp))
          (toUpperCase (currency (feed inp))) = Some apm"
       "parsed_price (getMaximumRetailPrice (feedProductVariant inp))
          (toUpperCase (currency (feed inp))) = Some mrp"
       "getAdditionalDetails (feedProductVariant inp) = Some (ad, feedProductVariant inp1)"
       "return_policy_attribute (getReturnPolicyLabels (feedProductVariant inp)) = Some rpl"
       "additional_attributes (getAdditionalProductAttributes (feedProductVariant inp)) = Some apa"
    and lnk: "getLink t1 (shop inp) (feed inp) (product inp) (variant inp) (feedProductVariant inp) =
                Some lnk"
    and inp1: "inp1 = inp\<lparr>feedProductVariant := feedProductVariant inp1\<rparr>"
    and out1: "out1 = build_result inp (build_attributes inp igid ttl dsc gm lnk ail apm mrp ad)
            (rpl @ apa)"
    by blast
  from lnk obtain lnk2 where
    lnk2: "getLink t2 (shop inp) (feed inp) (product inp) (variant inp) (feedProductVariant inp) =
             Some lnk2"
    using getLink_returns [of t1 "shop inp" "feed inp" "product inp" "variant inp"
        "feedProductVariant inp"]
      getLink_returns [of t2 "shop inp" "feed inp" "product inp" "variant inp"
        "feedProductVariant inp"]
    by auto
  let ?out2 = "build_result inp (build_attributes inp igid ttl dsc gm lnk2 ail apm mrp ad)
            (rpl @ apa)"
  from g lnk2 inp1 have run2: "transform t2 inp = Some (?out2, inp1)"
    by (simp add: transform_def)
  have "?out2 = out1\<lparr>attributes := (attributes out1)\<lparr>link := link (attributes ?out2)\<rparr>\<rparr>"
    unfolding out1 by (simp add: build_result_def build_attributes_def Let_def)
  with run2 show ?thesis by blast
qed

lemma unchanged_input:
  assumes "transform now inp = Some (out, inp')"
    and "\<not> truthy (override (feedProductVariant inp) ''additional_details'' ''certifications'')"
  shows "inp' = inp"
proof -
  from transform_Some [OF assms(1)] obtain ad where
    ad: "getAdditionalDetails (feedProductVariant inp) = Some (ad, feedProductVariant inp')" and
    inp': "inp' = inp\<lparr>feedProductVariant := feedProductVariant inp'\<rparr>"
    by blast
  from assms(2) have "getAdditionalDetails (feedProductVariant inp) \<in>
      {Some (group (feedProductVariant inp) ''additional_details'', feedProductVariant inp),
       Some (Null, feedProductVariant inp)}"
    by (auto simp: getAdditionalDetails_def override_is_property split: jsval.splits)
  with ad have "feedProductVariant inp' = feedProductVariant inp" by auto
  with inp' show ?thesis by simp
qed

end
